theory Spec2Isabelle
  imports Complex_Main
begin

section \<open>Dual mesh construction from a tagged tetrahedral mesh\<close>

text \<open>
  A shallow embedding of \<^verbatim>\<open>src/polyglot/create_dual_mesh.c\<close>. C \<^verbatim>\<open>int\<close> values are
  modelled as \<^typ>\<open>int\<close> (no arithmetic in the file comes near the 32 bit range for the
  inputs considered), \<^verbatim>\<open>double\<close> values as the type \<open>double\<close> below. A failed \<^verbatim>\<open>ASSERT\<close>, a
  dereferenced \<^verbatim>\<open>NULL\<close>, an access outside an array the routine allocated itself and
  the use of a value that was never written are results of type \<open>error\<close>; every
  \<^verbatim>\<open>ASSERT\<close> is taken as active.
\<close>

subsection \<open>Errors, arrays, loops\<close>

datatype error = AssertionFailed | OutOfBounds | NullPointer | Indeterminate

definition ebind :: "error + 'a \<Rightarrow> ('a \<Rightarrow> error + 'b) \<Rightarrow> error + 'b" where
  "ebind m f = (case m of Inl e \<Rightarrow> Inl e | Inr a \<Rightarrow> f a)"

definition rd :: "'a list \<Rightarrow> int \<Rightarrow> error + 'a" where
  "rd xs i = (if 0 \<le> i \<and> i < int (length xs) then Inr (xs ! nat i) else Inl OutOfBounds)"

definition wr :: "'a list \<Rightarrow> int \<Rightarrow> 'a \<Rightarrow> error + 'a list" where
  "wr xs i v = (if 0 \<le> i \<and> i < int (length xs) then Inr (xs[nat i := v]) else Inl OutOfBounds)"

fun efold :: "('a \<Rightarrow> 's \<Rightarrow> error + 's) \<Rightarrow> 'a list \<Rightarrow> 's \<Rightarrow> error + 's" where
  "efold body [] s = Inr s"
| "efold body (a # as) s = (case body a s of Inl e \<Rightarrow> Inl e | Inr s' \<Rightarrow> efold body as s')"

subsection \<open>Doubles and points\<close>

text \<open>
  A C \<^verbatim>\<open>double\<close> is a finite value, an infinity or a NaN; the two zeros are not told
  apart and there is one NaN. The comparison \<^verbatim>\<open><\<close> of two doubles is exact and is false
  as soon as one of them is a NaN.
\<close>

datatype double = Finite real | PlusInfinity | MinusInfinity | NaN

fun double_less :: "double \<Rightarrow> double \<Rightarrow> bool" where
  "double_less (Finite x) (Finite y) = (x < y)"
| "double_less (Finite x) PlusInfinity = True"
| "double_less MinusInfinity (Finite y) = True"
| "double_less MinusInfinity PlusInfinity = True"
| "double_less a b = False"

text \<open>
  The operators \<^verbatim>\<open>+\<close> and \<^verbatim>\<open>*\<close> on \<^verbatim>\<open>double\<close> are not the repository's but the machine's.
  The construction takes them as parameters (\<open>double_add\<close> and \<open>double_mul\<close> of the
  record \<open>geometry_t\<close> below). \<open>binary64_add\<close> and \<open>binary64_mul\<close> are the IEEE 754
  binary64 operations in the default rounding mode, to nearest with ties to even: the
  exact result is rounded to a multiple of the spacing of the binary64 numbers at its
  magnitude (53 significant bits above \<open>2 ^ - 1022\<close>, the spacing \<open>2 ^ - 1074\<close> below),
  and a rounded result of magnitude \<open>2 ^ 1024\<close> or more is an infinity.
\<close>

definition round_half_even :: "real \<Rightarrow> int" where
  "round_half_even r =
     (let f = \<lfloor>r\<rfloor> in
      if r - of_int f < 1 / 2 then f
      else if 1 / 2 < r - of_int f then f + 1
      else if even f then f else f + 1)"

definition binary64_quantum :: "real \<Rightarrow> real" where
  "binary64_quantum x = 2 powr of_int (max \<lfloor>log 2 \<bar>x\<bar>\<rfloor> (- 1022) - 52)"

definition binary64_round :: "real \<Rightarrow> double" where
  "binary64_round x =
     (if x = 0 then Finite 0
      else
        let q = binary64_quantum x;
            y = of_int (round_half_even (x / q)) * q
        in if 2 ^ 1024 \<le> y then PlusInfinity
           else if y \<le> - (2 ^ 1024) then MinusInfinity
           else Finite y)"

fun binary64_add :: "double \<Rightarrow> double \<Rightarrow> double" where
  "binary64_add (Finite x) (Finite y) = binary64_round (x + y)"
| "binary64_add NaN b = NaN"
| "binary64_add a NaN = NaN"
| "binary64_add PlusInfinity MinusInfinity = NaN"
| "binary64_add MinusInfinity PlusInfinity = NaN"
| "binary64_add PlusInfinity b = PlusInfinity"
| "binary64_add MinusInfinity b = MinusInfinity"
| "binary64_add a PlusInfinity = PlusInfinity"
| "binary64_add a MinusInfinity = MinusInfinity"

definition infinity_times :: "bool \<Rightarrow> real \<Rightarrow> double" where
  "infinity_times positive x =
     (if x = 0 then NaN else if (0 < x) = positive then PlusInfinity else MinusInfinity)"

fun binary64_mul :: "double \<Rightarrow> double \<Rightarrow> double" where
  "binary64_mul (Finite x) (Finite y) = binary64_round (x * y)"
| "binary64_mul NaN b = NaN"
| "binary64_mul a NaN = NaN"
| "binary64_mul (Finite x) PlusInfinity = infinity_times True x"
| "binary64_mul (Finite x) MinusInfinity = infinity_times False x"
| "binary64_mul PlusInfinity (Finite y) = infinity_times True y"
| "binary64_mul MinusInfinity (Finite y) = infinity_times False y"
| "binary64_mul PlusInfinity PlusInfinity = PlusInfinity"
| "binary64_mul MinusInfinity MinusInfinity = PlusInfinity"
| "binary64_mul PlusInfinity MinusInfinity = MinusInfinity"
| "binary64_mul MinusInfinity PlusInfinity = MinusInfinity"

datatype point_t = Point (px: double) (py: double) (pz: double)

datatype point2_t = Point2 (p2x: double) (p2y: double)

definition fpoint :: "real \<Rightarrow> real \<Rightarrow> real \<Rightarrow> point_t" where
  "fpoint x y z = Point (Finite x) (Finite y) (Finite z)"

subsection \<open>Ordering the nodes of a dual face between two endpoints\<close>

datatype dual_face_node_ordering_t = Ordering (angle: double) (index: int)

definition dual_face_node_cmp ::
  "dual_face_node_ordering_t \<Rightarrow> dual_face_node_ordering_t \<Rightarrow> int" where
  "dual_face_node_cmp fl fr =
     (if double_less (angle fl) (angle fr) then - 1
      else if double_less (angle fr) (angle fl) then 1 else 0)"

text \<open>
  The C library's \<^verbatim>\<open>qsort\<close> is not part of the repository. It is modelled by an insertion
  sort driven by the comparator, which is one of the behaviours \<^verbatim>\<open>qsort\<close> may show (the
  order of elements that compare equal is not fixed by the C standard).
\<close>

fun qsort_insert :: "('a \<Rightarrow> 'a \<Rightarrow> int) \<Rightarrow> 'a \<Rightarrow> 'a list \<Rightarrow> 'a list" where
  "qsort_insert cmp a [] = [a]"
| "qsort_insert cmp a (b # bs) =
     (if cmp a b \<le> 0 then a # b # bs else b # qsort_insert cmp a bs)"

definition qsort :: "('a \<Rightarrow> 'a \<Rightarrow> int) \<Rightarrow> 'a list \<Rightarrow> 'a list" where
  "qsort cmp as = foldr (qsort_insert cmp) as []"

text \<open>
  \<^verbatim>\<open>order_nodes_of_dual_face(plane, endpoint_indices, dual_nodes, num_nodes,
  dual_node_indices)\<close>. The plane enters through its projection \<open>project\<close>, and \<open>atan2\<close> is
  the C library's; \<open>junk\<close> is the indeterminate initial content of the local array
  \<^verbatim>\<open>tweener_nodes\<close>. The result is the array \<^verbatim>\<open>dual_node_indices\<close> after the call.

  In the last branch the source never increments \<^verbatim>\<open>j\<close>, so every projected node is
  stored at \<^verbatim>\<open>tweener_nodes[0]\<close>; the test of the loop reads \<^verbatim>\<open>dual_node_indices[0]\<close> and
  \<^verbatim>\<open>dual_node_indices[2]\<close> as the caller left them; and the last slot receives
  \<^verbatim>\<open>endpoint_indices[0]\<close>.
\<close>

definition middle_node :: "int list \<Rightarrow> error + int list" where
  "middle_node d =
     ebind (rd d 0) (\<lambda>d0. ebind (rd d 2) (\<lambda>d2.
       (case find (\<lambda>i. i \<noteq> d0 \<and> i \<noteq> d2) [0, 1, 2] of
          None \<Rightarrow> Inr d
        | Some i \<Rightarrow> wr d 1 i)))"

definition tweener_step ::
  "(point_t \<Rightarrow> point2_t) \<Rightarrow> (double \<Rightarrow> double \<Rightarrow> double) \<Rightarrow> point_t list \<Rightarrow> int list \<Rightarrow>
   nat \<Rightarrow> dual_face_node_ordering_t list \<Rightarrow> error + dual_face_node_ordering_t list" where
  "tweener_step project atan2 dual_nodes d i tw =
     ebind (rd d 0) (\<lambda>d0. ebind (rd d 2) (\<lambda>d2.
       if int i \<noteq> d0 \<and> int i \<noteq> d2 then
         ebind (rd dual_nodes (int i)) (\<lambda>p.
           let xi = project p in wr tw 0 (Ordering (atan2 (p2y xi) (p2x xi)) (int i)))
       else Inr tw))"

definition put_back :: "dual_face_node_ordering_t list \<Rightarrow> nat \<Rightarrow> int list \<Rightarrow> error + int list" where
  "put_back tw i d = ebind (rd tw (int i)) (\<lambda>t. wr d (int i + 1) (index t))"

definition order_nodes_of_dual_face ::
  "(point_t \<Rightarrow> point2_t) \<Rightarrow> (double \<Rightarrow> double \<Rightarrow> double) \<Rightarrow> int \<times> int \<Rightarrow> point_t list \<Rightarrow>
   nat \<Rightarrow> int list \<Rightarrow> (nat \<Rightarrow> dual_face_node_ordering_t) \<Rightarrow> error + int list" where
  "order_nodes_of_dual_face project atan2 endpoint_indices dual_nodes num_nodes
     dual_node_indices junk =
     (if \<not> 2 \<le> num_nodes \<or> fst endpoint_indices = - 1 \<or> snd endpoint_indices = - 1
         \<or> fst endpoint_indices = snd endpoint_indices
      then Inl AssertionFailed
      else if num_nodes = 2 then
        ebind (wr dual_node_indices 0 (fst endpoint_indices)) (\<lambda>d.
          wr d 1 (snd endpoint_indices))
      else if num_nodes = 3 then
        ebind (wr dual_node_indices 0 (fst endpoint_indices)) (\<lambda>d.
        ebind (wr d 2 (snd endpoint_indices)) middle_node)
      else
        ebind (efold (tweener_step project atan2 dual_nodes dual_node_indices)
                 [0..<num_nodes] (map junk [0..<num_nodes - 2])) (\<lambda>tw.
        let tw' = qsort dual_face_node_cmp tw in
        ebind (wr dual_node_indices 0 (fst endpoint_indices)) (\<lambda>d.
        ebind (efold (put_back tw') [0..<num_nodes - 2] d) (\<lambda>d'.
          wr d' (int num_nodes - 1) (fst endpoint_indices)))))"

subsection \<open>Containers and the primal mesh\<close>

text \<open>
  Modelled from the spec: polymec's \<^verbatim>\<open>int_unordered_set_t\<close> and
  \<^verbatim>\<open>int_int_unordered_map_t\<close> (\<^verbatim>\<open>core/unordered_set.h\<close>, \<^verbatim>\<open>core/unordered_map.h\<close>) are
  not under \<^verbatim>\<open>src/\<close>. A set of element indices is a duplicate-free list; the traversal
  \<^verbatim>\<open>int_unordered_set_next\<close> visits it in insertion order (the hash order of the original
  is not fixed by the source; the general properties below do not depend on the order,
  the evaluations on the example meshes use this one). A map from element
  index to derived value is a partial function; \<^verbatim>\<open>int_int_unordered_map_get\<close> returning
  \<^verbatim>\<open>NULL\<close> is \<open>None\<close>.
\<close>

type_synonym int_unordered_set_t = "int list"

definition int_unordered_set_insert :: "int_unordered_set_t \<Rightarrow> int \<Rightarrow> int_unordered_set_t" where
  "int_unordered_set_insert s a = (if a \<in> set s then s else s @ [a])"

definition int_unordered_set_delete :: "int_unordered_set_t \<Rightarrow> int \<Rightarrow> int_unordered_set_t" where
  "int_unordered_set_delete s a = removeAll a s"

definition int_unordered_set_contains :: "int_unordered_set_t \<Rightarrow> int \<Rightarrow> bool" where
  "int_unordered_set_contains s a = (a \<in> set s)"

type_synonym int_int_unordered_map_t = "int \<rightharpoonup> int"

definition int_int_unordered_map_insert ::
  "int_int_unordered_map_t \<Rightarrow> int \<Rightarrow> int \<Rightarrow> int_int_unordered_map_t" where
  "int_int_unordered_map_insert m k v = m(k \<mapsto> v)"

text \<open>
  Modelled from the spec: the primal mesh container \<^verbatim>\<open>mesh_t\<close> and its tag tables are not
  under \<^verbatim>\<open>src/\<close>. The record has the fields the routine reads: the flattened arrays
  \<^verbatim>\<open>edge_nodes\<close> and \<^verbatim>\<open>face_cells\<close> (second slot \<open>-1\<close> on a boundary), coordinates and
  centres, the three iterators \<^verbatim>\<open>mesh_cell_next_face\<close>, \<^verbatim>\<open>mesh_face_next_edge\<close> and
  \<^verbatim>\<open>mesh_face_next_node\<close> as the lists they enumerate, \<^verbatim>\<open>mesh_cell_face_for_neighbor\<close>, and
  \<^verbatim>\<open>mesh_tag\<close> as the sequence of element indices a tag name resolves to (empty for a
  name that resolves to nothing), and the answer of
  \<^verbatim>\<open>mesh_has_feature(mesh, MESH_IS_TETRAHEDRAL)\<close>.
\<close>

record mesh_t =
  num_cells :: nat
  num_edges :: nat
  num_nodes :: nat
  nodes :: "int \<Rightarrow> point_t"
  edge_nodes :: "int \<Rightarrow> int"
  face_cells :: "int \<Rightarrow> int"
  face_centers :: "int \<Rightarrow> point_t"
  cell_centers :: "int \<Rightarrow> point_t"
  mesh_cell_faces :: "int \<Rightarrow> int list"
  mesh_face_edges :: "int \<Rightarrow> int list"
  mesh_face_nodes :: "int \<Rightarrow> int list"
  mesh_cell_face_for_neighbor :: "int \<Rightarrow> int \<Rightarrow> int"
  face_tags :: "string \<Rightarrow> int list"
  edge_tags :: "string \<Rightarrow> int list"
  node_tags :: "string \<Rightarrow> int list"
  mesh_is_tetrahedral :: bool

text \<open>
  Modelled from the spec: the geometric services (\<^verbatim>\<open>geometry/tetrahedron.h\<close>,
  \<^verbatim>\<open>geometry/plane_sp_func.h\<close>, \<^verbatim>\<open>geometry/polygon.h\<close>, \<^verbatim>\<open>core/point.h\<close>) are not
  under \<^verbatim>\<open>src/\<close>; they are parameters. A tetrahedron is its four vertices;
  \<open>tetrahedron_new\<close> is the tetrahedron the constructor returns; \<open>point_displacement x1 x2\<close>
  is the vector from \<open>x1\<close> to \<open>x2\<close>; \<open>plane_sp_func_project n o\<close> projects onto the plane
  with normal \<open>n\<close> and origin \<open>o\<close>; \<open>polygon_giftwrap\<close> gives the ordering
  (\<^verbatim>\<open>polygon_ordering\<close>) of the gift-wrapped polygon; \<open>tweener_junk\<close> is the indeterminate
  content of a fresh local array of \<^verbatim>\<open>dual_face_node_ordering_t\<close>. The record also holds
  the machine's \<^verbatim>\<open>+\<close> and \<^verbatim>\<open>*\<close> on \<^verbatim>\<open>double\<close>, \<open>double_add\<close> and \<open>double_mul\<close>.
\<close>

type_synonym tetrahedron_t = "point_t \<times> point_t \<times> point_t \<times> point_t"

record geometry_t =
  tetrahedron_new :: tetrahedron_t
  tetrahedron_compute_circumcenter :: "tetrahedron_t \<Rightarrow> point_t"
  tetrahedron_compute_nearest_point :: "tetrahedron_t \<Rightarrow> point_t \<Rightarrow> point_t"
  point_displacement :: "point_t \<Rightarrow> point_t \<Rightarrow> point_t"
  plane_sp_func_project :: "point_t \<Rightarrow> point_t \<Rightarrow> point_t \<Rightarrow> point2_t"
  atan2 :: "double \<Rightarrow> double \<Rightarrow> double"
  polygon_giftwrap :: "point_t list \<Rightarrow> int list"
  tweener_junk :: "nat \<Rightarrow> dual_face_node_ordering_t"
  double_add :: "double \<Rightarrow> double \<Rightarrow> double"
  double_mul :: "double \<Rightarrow> double \<Rightarrow> double"

subsection \<open>Tagged element sets (lines 102--192)\<close>

record tagged_t =
  external_boundary_tets :: int_unordered_set_t
  external_model_faces :: int_unordered_set_t
  external_model_face_edges :: int_unordered_set_t
  model_face_nodes :: int_unordered_set_t
  internal_boundary_tets :: int_unordered_set_t
  internal_model_faces :: int_unordered_set_t
  internal_model_face_edges :: int_unordered_set_t
  model_edges :: int_unordered_set_t
  model_edge_nodes :: int_unordered_set_t
  model_vertices :: int_unordered_set_t

definition insert_all :: "int list \<Rightarrow> int_unordered_set_t \<Rightarrow> int_unordered_set_t" where
  "insert_all xs s = fold (\<lambda>a t. int_unordered_set_insert t a) xs s"

definition external_face_step :: "mesh_t \<Rightarrow> int \<Rightarrow> tagged_t \<Rightarrow> tagged_t" where
  "external_face_step tet_mesh face s =
     (let btet1 = face_cells tet_mesh (2 * face);
          btet2 = face_cells tet_mesh (2 * face + 1);
          tets1 = int_unordered_set_insert (external_boundary_tets s) btet1
      in s\<lparr>external_model_faces := int_unordered_set_insert (external_model_faces s) face,
            external_boundary_tets :=
              (if btet2 \<noteq> - 1 then int_unordered_set_insert tets1 btet2 else tets1),
            external_model_face_edges :=
              insert_all (mesh_face_edges tet_mesh face) (external_model_face_edges s),
            model_face_nodes :=
              insert_all (mesh_face_nodes tet_mesh face) (model_face_nodes s)\<rparr>)"

definition internal_face_step :: "mesh_t \<Rightarrow> int \<Rightarrow> tagged_t \<Rightarrow> tagged_t" where
  "internal_face_step tet_mesh face s =
     (let btet1 = face_cells tet_mesh (2 * face);
          btet2 = face_cells tet_mesh (2 * face + 1);
          tets1 = int_unordered_set_insert (internal_boundary_tets s) btet1
      in s\<lparr>internal_model_faces := int_unordered_set_insert (internal_model_faces s) face,
            internal_boundary_tets :=
              (if btet2 \<noteq> - 1 then int_unordered_set_insert tets1 btet2 else tets1),
            internal_model_face_edges :=
              insert_all (mesh_face_edges tet_mesh face) (internal_model_face_edges s),
            model_face_nodes :=
              insert_all (mesh_face_nodes tet_mesh face) (model_face_nodes s)\<rparr>)"

definition model_edge_step :: "mesh_t \<Rightarrow> int \<Rightarrow> tagged_t \<Rightarrow> tagged_t" where
  "model_edge_step tet_mesh edge s =
     s\<lparr>model_edges := int_unordered_set_insert (model_edges s) edge,
       model_edge_nodes :=
         int_unordered_set_insert
           (int_unordered_set_insert (model_edge_nodes s) (edge_nodes tet_mesh (2 * edge)))
           (edge_nodes tet_mesh (2 * edge + 1))\<rparr>"

definition model_vertex_step :: "int \<Rightarrow> tagged_t \<Rightarrow> tagged_t" where
  "model_vertex_step vertex s =
     s\<lparr>model_vertices := int_unordered_set_insert (model_vertices s) vertex,
       model_edge_nodes := int_unordered_set_delete (model_edge_nodes s) vertex,
       model_face_nodes := int_unordered_set_delete (model_face_nodes s) vertex\<rparr>"

definition for_tags :: "(string \<Rightarrow> int list) \<Rightarrow> string list \<Rightarrow> (int \<Rightarrow> 's \<Rightarrow> 's) \<Rightarrow> 's \<Rightarrow> 's" where
  "for_tags mesh_tag tags step s = fold (\<lambda>name t. fold step (mesh_tag name) t) tags s"

definition empty_tagged :: tagged_t where
  "empty_tagged = \<lparr>external_boundary_tets = [], external_model_faces = [],
     external_model_face_edges = [], model_face_nodes = [], internal_boundary_tets = [],
     internal_model_faces = [], internal_model_face_edges = [], model_edges = [],
     model_edge_nodes = [], model_vertices = []\<rparr>"

definition build_tagged ::
  "mesh_t \<Rightarrow> string list \<Rightarrow> string list \<Rightarrow> string list \<Rightarrow> string list \<Rightarrow> tagged_t" where
  "build_tagged tet_mesh external_model_face_tags internal_model_face_tags model_edge_tags
     model_vertex_tags =
     (let s1 = for_tags (face_tags tet_mesh) external_model_face_tags
                 (external_face_step tet_mesh) empty_tagged;
          s2 = for_tags (face_tags tet_mesh) internal_model_face_tags
                 (internal_face_step tet_mesh) s1;
          s3 = for_tags (edge_tags tet_mesh) model_edge_tags (model_edge_step tet_mesh) s2
      in for_tags (node_tags tet_mesh) model_vertex_tags model_vertex_step s3)"

subsection \<open>Cells and faces around edges, tagged faces around nodes (lines 194--248)\<close>

text \<open>
  The three arrays of set pointers start out all \<^verbatim>\<open>NULL\<close> (\<open>None\<close>); a set is created
  at its first insertion.
\<close>

record incidence_t =
  primal_cells_for_edge :: "int_unordered_set_t option list"
  primal_faces_for_edge :: "int_unordered_set_t option list"
  primal_boundary_faces_for_node :: "int_unordered_set_t option list"

definition associate ::
  "int_unordered_set_t option list \<Rightarrow> int \<Rightarrow> int \<Rightarrow> error + int_unordered_set_t option list" where
  "associate sets i a =
     ebind (rd sets i) (\<lambda>p.
       wr sets i (Some (int_unordered_set_insert (case p of None \<Rightarrow> [] | Some t \<Rightarrow> t) a)))"

definition incidence_edge_step :: "int \<Rightarrow> int \<Rightarrow> int \<Rightarrow> incidence_t \<Rightarrow> error + incidence_t" where
  "incidence_edge_step cell face edge inc =
     ebind (associate (primal_cells_for_edge inc) edge cell) (\<lambda>ce.
     ebind (associate (primal_faces_for_edge inc) edge face) (\<lambda>fe.
       Inr (inc\<lparr>primal_cells_for_edge := ce, primal_faces_for_edge := fe\<rparr>)))"

definition incidence_node_step :: "int \<Rightarrow> int \<Rightarrow> incidence_t \<Rightarrow> error + incidence_t" where
  "incidence_node_step face node inc =
     ebind (associate (primal_boundary_faces_for_node inc) node face) (\<lambda>fn.
       Inr (inc\<lparr>primal_boundary_faces_for_node := fn\<rparr>))"

definition incidence_face_step ::
  "mesh_t \<Rightarrow> tagged_t \<Rightarrow> int \<Rightarrow> int \<Rightarrow> incidence_t \<Rightarrow> error + incidence_t" where
  "incidence_face_step tet_mesh tg cell face inc =
     ebind (efold (incidence_edge_step cell face) (mesh_face_edges tet_mesh face) inc) (\<lambda>inc1.
       if int_unordered_set_contains (external_model_faces tg) face
          \<or> int_unordered_set_contains (internal_model_faces tg) face
       then efold (incidence_node_step face) (mesh_face_nodes tet_mesh face) inc1
       else Inr inc1)"

definition build_incidence :: "mesh_t \<Rightarrow> tagged_t \<Rightarrow> error + incidence_t" where
  "build_incidence tet_mesh tg =
     efold (\<lambda>cell. efold (incidence_face_step tet_mesh tg (int cell))
                      (mesh_cell_faces tet_mesh (int cell)))
       [0..<num_cells tet_mesh]
       \<lparr>primal_cells_for_edge = replicate (num_edges tet_mesh) None,
        primal_faces_for_edge = replicate (num_edges tet_mesh) None,
        primal_boundary_faces_for_node = replicate (num_nodes tet_mesh) None\<rparr>"

subsection \<open>Counting the dual mesh entities (lines 250--289)\<close>

definition count_dual_nodes :: "mesh_t \<Rightarrow> tagged_t \<Rightarrow> nat" where
  "count_dual_nodes tet_mesh tg =
     length (external_model_faces tg) + length (internal_model_faces tg) + num_cells tet_mesh
     + length (model_edges tg) + length (model_vertices tg)"

definition count_node_faces :: "incidence_t \<Rightarrow> nat \<Rightarrow> nat \<Rightarrow> error + nat" where
  "count_node_faces inc n acc =
     ebind (rd (primal_boundary_faces_for_node inc) (int n)) (\<lambda>p.
       Inr (case p of None \<Rightarrow> acc | Some t \<Rightarrow> acc + length t))"

definition count_model_edge_faces :: "tagged_t \<Rightarrow> incidence_t \<Rightarrow> int \<Rightarrow> nat \<Rightarrow> error + nat" where
  "count_model_edge_faces tg inc edge acc =
     ebind (rd (primal_faces_for_edge inc) edge) (\<lambda>p.
       case p of
         None \<Rightarrow> Inl NullPointer
       | Some faces_for_edge \<Rightarrow>
           Inr (acc + length (filter (\<lambda>face.
                  int_unordered_set_contains (external_model_faces tg) face
                  \<or> int_unordered_set_contains (internal_model_faces tg) face) faces_for_edge)))"

definition count_model_vertex_faces :: "incidence_t \<Rightarrow> int \<Rightarrow> nat \<Rightarrow> error + nat" where
  "count_model_vertex_faces inc node acc =
     ebind (rd (primal_boundary_faces_for_node inc) node) (\<lambda>p.
       case p of
         None \<Rightarrow> Inl AssertionFailed
       | Some t \<Rightarrow> Inr (acc + length t))"

definition count_dual_faces_from_boundary_vertices ::
  "mesh_t \<Rightarrow> tagged_t \<Rightarrow> incidence_t \<Rightarrow> error + nat" where
  "count_dual_faces_from_boundary_vertices tet_mesh tg inc =
     ebind (efold (count_node_faces inc) [0..<num_nodes tet_mesh] 0) (\<lambda>n1.
     ebind (efold (count_model_edge_faces tg inc) (model_edges tg) n1) (\<lambda>n2.
       efold (count_model_vertex_faces inc) (model_vertices tg) n2))"

definition count_dual_faces :: "mesh_t \<Rightarrow> tagged_t \<Rightarrow> nat \<Rightarrow> nat" where
  "count_dual_faces tet_mesh tg num_dual_faces_from_boundary_vertices =
     num_edges tet_mesh + length (external_model_face_edges tg)
     + num_dual_faces_from_boundary_vertices"

subsection \<open>Dual vertices (lines 297--365)\<close>

text \<open>
  \<open>dual_mesh_nodes\<close> is \<^verbatim>\<open>dual_mesh->nodes\<close>, allocated by \<^verbatim>\<open>mesh_new\<close> with
  \<open>num_dual_nodes\<close> entries; an entry never written is \<open>None\<close>. The tetrahedron \<open>tet\<close> of
  the first loop is the one \<^verbatim>\<open>tetrahedron_new()\<close> returned: the loop does not set its
  vertices. The model-edge loop inserts under the key \<^verbatim>\<open>e\<close>, the position in the tag;
  its vertex is \<^verbatim>\<open>0.5 * (x1 + x2)\<close> in each coordinate, in the arithmetic of
  \<^verbatim>\<open>double\<close>.
\<close>

record dual_vertices_t =
  dual_mesh_nodes :: "point_t option list"
  dv_offset :: nat
  dual_node_for_model_face :: int_int_unordered_map_t
  dual_node_for_edge :: int_int_unordered_map_t

definition put_dual_node :: "point_t \<Rightarrow> dual_vertices_t \<Rightarrow> error + dual_vertices_t" where
  "put_dual_node p st =
     ebind (wr (dual_mesh_nodes st) (int (dv_offset st)) (Some p)) (\<lambda>ns.
       Inr (st\<lparr>dual_mesh_nodes := ns\<rparr>))"

definition cell_vertex_step ::
  "geometry_t \<Rightarrow> tetrahedron_t \<Rightarrow> nat \<Rightarrow> dual_vertices_t \<Rightarrow> error + dual_vertices_t" where
  "cell_vertex_step geom tet c st =
     (let xc = tetrahedron_compute_circumcenter geom tet in
      ebind (put_dual_node (tetrahedron_compute_nearest_point geom tet xc) st) (\<lambda>st1.
        Inr (st1\<lparr>dv_offset := dv_offset st1 + 1\<rparr>)))"

definition model_face_vertex_step ::
  "mesh_t \<Rightarrow> nat \<times> int \<Rightarrow> dual_vertices_t \<Rightarrow> error + dual_vertices_t" where
  "model_face_vertex_step tet_mesh fx st =
     (let face = snd fx in
      ebind (put_dual_node (face_centers tet_mesh face) st) (\<lambda>st1.
        Inr (st1\<lparr>dual_node_for_model_face :=
                   int_int_unordered_map_insert (dual_node_for_model_face st1) face
                     (int (dv_offset st1)),
                 dv_offset := dv_offset st1 + 1\<rparr>)))"

definition midpoint_of :: "geometry_t \<Rightarrow> point_t \<Rightarrow> point_t \<Rightarrow> point_t" where
  "midpoint_of geom x1 x2 =
     Point (double_mul geom (Finite 0.5) (double_add geom (px x1) (px x2)))
           (double_mul geom (Finite 0.5) (double_add geom (py x1) (py x2)))
           (double_mul geom (Finite 0.5) (double_add geom (pz x1) (pz x2)))"

definition model_edge_vertex_step ::
  "geometry_t \<Rightarrow> mesh_t \<Rightarrow> nat \<times> int \<Rightarrow> dual_vertices_t \<Rightarrow> error + dual_vertices_t" where
  "model_edge_vertex_step geom tet_mesh ex st =
     (let e = fst ex; edge = snd ex;
          x1 = nodes tet_mesh (edge_nodes tet_mesh (2 * edge));
          x2 = nodes tet_mesh (edge_nodes tet_mesh (2 * edge + 1))
      in ebind (put_dual_node (midpoint_of geom x1 x2) st) (\<lambda>st1.
        Inr (st1\<lparr>dual_node_for_edge :=
                   int_int_unordered_map_insert (dual_node_for_edge st1) (int e)
                     (int (dv_offset st1)),
                 dv_offset := dv_offset st1 + 1\<rparr>)))"

definition model_vertex_vertex_step ::
  "mesh_t \<Rightarrow> nat \<times> int \<Rightarrow> dual_vertices_t \<Rightarrow> error + dual_vertices_t" where
  "model_vertex_vertex_step tet_mesh vx st =
     (let vertex = snd vx in
      ebind (put_dual_node (nodes tet_mesh vertex) st) (\<lambda>st1.
        Inr (st1\<lparr>dv_offset := dv_offset st1 + 1\<rparr>)))"

definition efor_tags ::
  "(string \<Rightarrow> int list) \<Rightarrow> string list \<Rightarrow> (nat \<times> int \<Rightarrow> 's \<Rightarrow> error + 's) \<Rightarrow> 's \<Rightarrow> error + 's" where
  "efor_tags mesh_tag tags step s =
     efold (\<lambda>name. efold step (enumerate 0 (mesh_tag name))) tags s"

definition generate_dual_vertices ::
  "geometry_t \<Rightarrow> mesh_t \<Rightarrow> string list \<Rightarrow> string list \<Rightarrow> string list \<Rightarrow> string list \<Rightarrow>
   nat \<Rightarrow> error + dual_vertices_t" where
  "generate_dual_vertices geom tet_mesh external_model_face_tags internal_model_face_tags
     model_edge_tags model_vertex_tags num_dual_nodes =
     (let tet = tetrahedron_new geom;
          st0 = \<lparr>dual_mesh_nodes = replicate num_dual_nodes None, dv_offset = 0,
                 dual_node_for_model_face = Map.empty, dual_node_for_edge = Map.empty\<rparr>
      in
      ebind (efold (cell_vertex_step geom tet) [0..<num_cells tet_mesh] st0) (\<lambda>st1.
      ebind (efor_tags (face_tags tet_mesh) external_model_face_tags
               (model_face_vertex_step tet_mesh) st1) (\<lambda>st2.
      ebind (efor_tags (face_tags tet_mesh) internal_model_face_tags
               (model_face_vertex_step tet_mesh) st2) (\<lambda>st3.
      ebind (efor_tags (edge_tags tet_mesh) model_edge_tags
               (model_edge_vertex_step geom tet_mesh) st3) (\<lambda>st4.
      ebind (efor_tags (node_tags tet_mesh) model_vertex_tags
               (model_vertex_vertex_step tet_mesh) st4) (\<lambda>st5.
        if dv_offset st5 = num_dual_nodes then Inr st5 else Inl AssertionFailed))))))"

subsection \<open>Dual faces for the primal edges (lines 367--571)\<close>

text \<open>
  \<open>nodes_for_dual_face\<close> is the array of \<^verbatim>\<open>int_array_t\<close> pointers, \<^verbatim>\<open>NULL\<close> (\<open>None\<close>) until
  a face is stored. An \<^verbatim>\<open>int_array_t\<close> is the list of its \<^verbatim>\<open>size\<close> entries; an entry that
  \<^verbatim>\<open>int_array_resize\<close> made and nothing wrote is \<open>None\<close>. \<open>face_node_offsets\<close> is
  \<^verbatim>\<open>dual_mesh->face_node_offsets\<close>, with one entry more than there are dual faces.
\<close>

record dual_faces_t =
  df_offset :: nat
  face_node_offsets :: "int list"
  nodes_for_dual_face :: "int option list option list"

definition c_mod :: "int \<Rightarrow> int \<Rightarrow> int" where
  "c_mod a b = sgn a * (\<bar>a\<bar> mod \<bar>b\<bar>)"

definition find_endpoints :: "tagged_t \<Rightarrow> int list \<Rightarrow> int \<times> int" where
  "find_endpoints tg cells =
     fold (\<lambda>cc endpoint_indices.
             if int_unordered_set_contains (external_boundary_tets tg) (snd cc)
             then (if fst endpoint_indices = - 1 then (int (fst cc), snd endpoint_indices)
                   else (fst endpoint_indices, int (fst cc)))
             else endpoint_indices)
       (enumerate 0 cells) (- 1, - 1)"

definition set_face_node_offset :: "nat \<Rightarrow> int \<Rightarrow> int list \<Rightarrow> error + int list" where
  "set_face_node_offset k num_face_nodes offs =
     ebind (rd offs (int k)) (\<lambda>prev. wr offs (int k + 1) (prev + num_face_nodes))"

definition external_edge_face ::
  "geometry_t \<Rightarrow> mesh_t \<Rightarrow> tagged_t \<Rightarrow> int_int_unordered_map_t \<Rightarrow> int list \<Rightarrow> int \<Rightarrow>
   dual_faces_t \<Rightarrow> error + dual_faces_t" where
  "external_edge_face geom tet_mesh tg dual_node_for_edge_map cells_for_edge edge st =
     (let is_model_edge = int_unordered_set_contains (model_edges tg) edge;
          num_nodes = length cells_for_edge;
          dual_nodes = map (cell_centers tet_mesh) cells_for_edge;
          endpoint_indices = find_endpoints tg cells_for_edge;
          x1 = nodes tet_mesh (edge_nodes tet_mesh (2 * edge));
          x2 = nodes tet_mesh (edge_nodes tet_mesh (2 * edge + 1));
          edge_vector = point_displacement geom x1 x2
      in
      ebind (order_nodes_of_dual_face (plane_sp_func_project geom edge_vector x1) (atan2 geom)
               endpoint_indices dual_nodes num_nodes cells_for_edge (tweener_junk geom))
        (\<lambda>dual_node_indices.
      let num_face_nodes = (if is_model_edge then num_nodes + 1 else num_nodes) in
      if \<not> 3 \<le> num_face_nodes then Inl AssertionFailed
      else
        ebind (set_face_node_offset (df_offset st) (int num_face_nodes) (face_node_offsets st))
          (\<lambda>offs.
        let face_nodes = map Some dual_node_indices
                         @ replicate (num_face_nodes - num_nodes) None in
        ebind (wr (nodes_for_dual_face st) (int (df_offset st)) (Some face_nodes)) (\<lambda>nf.
        ebind (if is_model_edge then
                 (case dual_node_for_edge_map edge of
                    None \<Rightarrow> Inl AssertionFailed
                  | Some dual_node_from_edge \<Rightarrow>
                      wr face_nodes (int num_nodes) (Some dual_node_from_edge))
               else Inr face_nodes) (\<lambda>face_nodes'.
          Inr (st\<lparr>df_offset := df_offset st + 1, face_node_offsets := offs,
                  nodes_for_dual_face := nf[df_offset st := Some face_nodes']\<rparr>))))))"

text \<open>
  The transition search of the internal-interface branch keeps
  \<open>(start_index1, start_index2, stop_index1, stop_index2)\<close>; the source stores cell numbers
  (\<^verbatim>\<open>this_cell\<close>, \<^verbatim>\<open>next_cell\<close>) in them.
\<close>

definition transition_step ::
  "mesh_t \<Rightarrow> tagged_t \<Rightarrow> int list \<Rightarrow> int list \<Rightarrow> nat \<Rightarrow> int \<times> int \<times> int \<times> int \<Rightarrow>
   error + int \<times> int \<times> int \<times> int" where
  "transition_step tet_mesh tg dual_node_indices poly_ordering i ix =
     (let num_cells = int (length dual_node_indices) in
      ebind (rd poly_ordering (int i)) (\<lambda>o1.
      ebind (rd dual_node_indices o1) (\<lambda>this_cell.
      ebind (rd poly_ordering (c_mod (int i + 1) num_cells)) (\<lambda>o2.
      ebind (rd dual_node_indices o2) (\<lambda>next_cell.
        if int_unordered_set_contains (internal_boundary_tets tg) this_cell
           \<and> int_unordered_set_contains (internal_boundary_tets tg) next_cell
        then
          (let shared_face = mesh_cell_face_for_neighbor tet_mesh this_cell next_cell in
           if shared_face \<noteq> - 1
              \<and> int_unordered_set_contains (internal_model_faces tg) shared_face
           then
             (case ix of (start_index1, start_index2, stop_index1, stop_index2) \<Rightarrow>
                if start_index1 = - 1
                then Inr (next_cell, start_index2, stop_index1, this_cell)
                else Inr (start_index1, next_cell, this_cell, stop_index2))
           else Inr ix)
        else Inr ix)))))"

definition copy_ring_node ::
  "int list \<Rightarrow> int list \<Rightarrow> int \<Rightarrow> int \<Rightarrow> int option list \<Rightarrow> error + int option list" where
  "copy_ring_node dual_node_indices poly_ordering start i face_nodes =
     (let j = c_mod (start + i) (int (length dual_node_indices)) in
      ebind (rd poly_ordering j) (\<lambda>oj.
      ebind (rd dual_node_indices oj) (\<lambda>cell.
        wr face_nodes i (Some cell))))"

definition copy_ring_nodes ::
  "int list \<Rightarrow> int list \<Rightarrow> int \<Rightarrow> int list \<Rightarrow> int option list \<Rightarrow> error + int option list" where
  "copy_ring_nodes dual_node_indices poly_ordering start is face_nodes =
     efold (copy_ring_node dual_node_indices poly_ordering start) is face_nodes"

definition append_model_edge_node ::
  "bool \<Rightarrow> int_int_unordered_map_t \<Rightarrow> int \<Rightarrow> int \<Rightarrow> int \<Rightarrow> int option list \<Rightarrow>
   int option list \<Rightarrow> error + int option list \<times> int option list" where
  "append_model_edge_node is_model_edge dual_node_for_edge_map edge num_nodes1 num_nodes2
     face1_nodes face2_nodes =
     (if is_model_edge then
        (case dual_node_for_edge_map edge of
           None \<Rightarrow> Inl AssertionFailed
         | Some dual_node_from_edge \<Rightarrow>
             ebind (wr face1_nodes num_nodes1 (Some dual_node_from_edge)) (\<lambda>f1.
             ebind (wr face2_nodes num_nodes2 (Some dual_node_from_edge)) (\<lambda>f2.
               Inr (f1, f2))))
      else Inr (face1_nodes, face2_nodes))"

text \<open>
  The internal-interface branch (lines 441--543). The first copy loop runs \<open>i\<close> from
  \<open>start_index1\<close> to \<open>stop_index1\<close> and writes \<^verbatim>\<open>face1_nodes->data[i]\<close>; the second runs
  \<open>i\<close> from \<open>0\<close> to \<open>num_nodes2\<close> inclusive and writes \<^verbatim>\<open>face1_nodes->data[i]\<close> as well, so
  nothing is written to \<^verbatim>\<open>face2_nodes\<close> before the model-edge node. Both arrays were
  resized to \<open>num_nodes1\<close> and \<open>num_nodes2\<close> entries, which puts \<^verbatim>\<open>data[num_nodes1]\<close> and
  \<^verbatim>\<open>data[num_nodes2]\<close> outside them.
\<close>

definition internal_edge_faces ::
  "geometry_t \<Rightarrow> mesh_t \<Rightarrow> tagged_t \<Rightarrow> int_int_unordered_map_t \<Rightarrow> int list \<Rightarrow> int \<Rightarrow>
   dual_faces_t \<Rightarrow> error + dual_faces_t" where
  "internal_edge_faces geom tet_mesh tg dual_node_for_edge_map cells_for_edge edge st =
     (let is_model_edge = int_unordered_set_contains (model_edges tg) edge;
          num_cells = length cells_for_edge;
          dual_nodes = map (cell_centers tet_mesh) cells_for_edge;
          dual_node_indices = cells_for_edge;
          poly_ordering = polygon_giftwrap geom dual_nodes
      in
      ebind (efold (transition_step tet_mesh tg dual_node_indices poly_ordering) [0..<num_cells]
               (- 1, - 1, - 1, - 1)) (\<lambda>ix.
      case ix of (start_index1, start_index2, stop_index1, stop_index2) \<Rightarrow>
      let num_nodes1 = stop_index1 - start_index1 + 1;
          num_face1_nodes = (if is_model_edge then num_nodes1 + 1 else num_nodes1)
      in
      if \<not> 3 \<le> num_face1_nodes then Inl AssertionFailed
      else
        ebind (set_face_node_offset (df_offset st) num_face1_nodes (face_node_offsets st))
          (\<lambda>offs1.
        ebind (wr (nodes_for_dual_face st) (int (df_offset st))
                 (Some (replicate (nat num_nodes1) None))) (\<lambda>nf1.
        ebind (copy_ring_nodes dual_node_indices poly_ordering start_index1
                 [start_index1..stop_index1] (replicate (nat num_nodes1) None))
          (\<lambda>face1_nodes.
        let num_nodes2 = stop_index2 - start_index2 + 1;
            num_face2_nodes = (if is_model_edge then num_nodes2 + 1 else num_nodes2)
        in
        if \<not> 3 \<le> num_face2_nodes then Inl AssertionFailed
        else
          ebind (set_face_node_offset (df_offset st + 1) num_face2_nodes offs1) (\<lambda>offs2.
          ebind (wr nf1 (int (df_offset st) + 1) (Some (replicate (nat num_nodes2) None)))
            (\<lambda>nf2.
          ebind (copy_ring_nodes dual_node_indices poly_ordering start_index2
                   [0..num_nodes2] face1_nodes) (\<lambda>face1_nodes'.
          ebind (append_model_edge_node is_model_edge dual_node_for_edge_map edge
                   num_nodes1 num_nodes2 face1_nodes' (replicate (nat num_nodes2) None))
            (\<lambda>faces.
            Inr (st\<lparr>df_offset := df_offset st + 2, face_node_offsets := offs2,
                    nodes_for_dual_face :=
                      nf2[df_offset st := Some (fst faces),
                          df_offset st + 1 := Some (snd faces)]\<rparr>))))))))))"

definition interior_edge_face ::
  "geometry_t \<Rightarrow> mesh_t \<Rightarrow> int list \<Rightarrow> dual_faces_t \<Rightarrow> error + dual_faces_t" where
  "interior_edge_face geom tet_mesh cells_for_edge st =
     (let num_cells = length cells_for_edge;
          dual_nodes = map (cell_centers tet_mesh) cells_for_edge
      in
      ebind (set_face_node_offset (df_offset st) (int num_cells) (face_node_offsets st))
        (\<lambda>offs.
      let poly_ordering = polygon_giftwrap geom dual_nodes in
      if length poly_ordering < num_cells then Inl OutOfBounds
      else
        ebind (wr (nodes_for_dual_face st) (int (df_offset st))
                 (Some (map Some (take num_cells poly_ordering)))) (\<lambda>nf.
          Inr (st\<lparr>df_offset := df_offset st + 1, face_node_offsets := offs,
                  nodes_for_dual_face := nf\<rparr>))))"

definition edge_face_step ::
  "geometry_t \<Rightarrow> mesh_t \<Rightarrow> tagged_t \<Rightarrow> incidence_t \<Rightarrow> int_int_unordered_map_t \<Rightarrow> nat \<Rightarrow>
   dual_faces_t \<Rightarrow> error + dual_faces_t" where
  "edge_face_step geom tet_mesh tg inc dual_node_for_edge_map e st =
     (let edge = int e in
      ebind (rd (primal_cells_for_edge inc) edge) (\<lambda>p.
        case p of
          None \<Rightarrow> Inl AssertionFailed
        | Some cells_for_edge \<Rightarrow>
            if int_unordered_set_contains (external_model_face_edges tg) edge
            then external_edge_face geom tet_mesh tg dual_node_for_edge_map cells_for_edge
                   edge st
            else if int_unordered_set_contains (internal_model_face_edges tg) edge
            then internal_edge_faces geom tet_mesh tg dual_node_for_edge_map cells_for_edge
                   edge st
            else interior_edge_face geom tet_mesh cells_for_edge st))"

definition edge_faces_loop ::
  "geometry_t \<Rightarrow> mesh_t \<Rightarrow> tagged_t \<Rightarrow> incidence_t \<Rightarrow> int_int_unordered_map_t \<Rightarrow> nat \<Rightarrow>
   error + dual_faces_t" where
  "edge_faces_loop geom tet_mesh tg inc dual_node_for_edge_map num_dual_faces =
     efold (edge_face_step geom tet_mesh tg inc dual_node_for_edge_map)
       [0..<num_edges tet_mesh]
       \<lparr>df_offset = 0, face_node_offsets = replicate (num_dual_faces + 1) 0,
        nodes_for_dual_face = replicate num_dual_faces None\<rparr>"

definition generate_edge_faces ::
  "geometry_t \<Rightarrow> mesh_t \<Rightarrow> tagged_t \<Rightarrow> incidence_t \<Rightarrow> int_int_unordered_map_t \<Rightarrow> nat \<Rightarrow>
   error + dual_faces_t" where
  "generate_edge_faces geom tet_mesh tg inc dual_node_for_edge_map num_dual_faces =
     ebind (edge_faces_loop geom tet_mesh tg inc dual_node_for_edge_map num_dual_faces)
       (\<lambda>st. if df_offset st = num_dual_faces then Inr st else Inl AssertionFailed)"

subsection \<open>Dual faces for tagged primal nodes (lines 573--640)\<close>

text \<open>
  Only the first of the three loops builds faces. The loops over the model edges and over
  the model vertices traverse their sets and do nothing else (their bodies are pending
  in the source); what remains of them is the dereference of the set they traverse.
\<close>

definition boundary_face_dual_node ::
  "dual_vertices_t \<Rightarrow> int \<Rightarrow> point_t list \<Rightarrow> error + point_t list" where
  "boundary_face_dual_node dv bface dual_nodes =
     (case dual_node_for_model_face dv bface of
        None \<Rightarrow> Inl AssertionFailed
      | Some dual_node \<Rightarrow>
          ebind (rd (dual_mesh_nodes dv) dual_node) (\<lambda>p.
            case p of None \<Rightarrow> Inl Indeterminate | Some x \<Rightarrow> Inr (dual_nodes @ [x])))"

definition model_face_node_step ::
  "geometry_t \<Rightarrow> tagged_t \<Rightarrow> incidence_t \<Rightarrow> dual_vertices_t \<Rightarrow> int \<Rightarrow> dual_faces_t \<Rightarrow>
   error + dual_faces_t" where
  "model_face_node_step geom tg inc dv node st =
     (if \<not> int_unordered_set_contains (model_edge_nodes tg) node then
        ebind (rd (primal_boundary_faces_for_node inc) node) (\<lambda>p.
          case p of
            None \<Rightarrow> Inl AssertionFailed
          | Some boundary_faces_for_node \<Rightarrow>
              (let num_dual_nodes = length boundary_faces_for_node in
               ebind (efold (boundary_face_dual_node dv) boundary_faces_for_node [])
                 (\<lambda>dual_nodes.
               let poly_ordering = polygon_giftwrap geom dual_nodes in
               if length poly_ordering < num_dual_nodes then Inl OutOfBounds
               else
                 ebind (wr (nodes_for_dual_face st) (int (df_offset st))
                          (Some (map Some (take num_dual_nodes poly_ordering)))) (\<lambda>nf.
                   Inr (st\<lparr>df_offset := df_offset st + 1, nodes_for_dual_face := nf\<rparr>)))))
      else Inr st)"

definition traverse_set ::
  "int_unordered_set_t option list \<Rightarrow> int \<Rightarrow> 's \<Rightarrow> error + 's" where
  "traverse_set sets i st =
     ebind (rd sets i) (\<lambda>p. case p of None \<Rightarrow> Inl NullPointer | Some t \<Rightarrow> Inr st)"

definition generate_vertex_faces ::
  "geometry_t \<Rightarrow> tagged_t \<Rightarrow> incidence_t \<Rightarrow> dual_vertices_t \<Rightarrow> dual_faces_t \<Rightarrow>
   error + dual_faces_t" where
  "generate_vertex_faces geom tg inc dv st =
     ebind (efold (model_face_node_step geom tg inc dv) (model_face_nodes tg) st) (\<lambda>st1.
     ebind (efold (traverse_set (primal_faces_for_edge inc)) (model_edges tg) st1) (\<lambda>st2.
       efold (traverse_set (primal_boundary_faces_for_node inc)) (model_vertices tg) st2))"

subsection \<open>Dual cells and the face-to-cell adjacency (lines 642--663)\<close>

text \<open>
  The assembly of the dual cells is pending in the source: between the allocation of
  \<open>faces_for_dual_cell\<close> (all \<^verbatim>\<open>NULL\<close>) and the assertion on \<open>dc_offset\<close> there is no
  statement. \<open>face_cells\<close> is \<^verbatim>\<open>dual_mesh->face_cells\<close>, two slots per dual face, which
  the test \<^verbatim>\<open>face_cells[2*face] == -1\<close> expects to start out as \<open>-1\<close>. The copy of a
  cell's faces into the flattened \<^verbatim>\<open>dual_mesh->cell_faces\<close> is left out: its layout comes
  from \<^verbatim>\<open>mesh_reserve_connectivity_storage\<close>, which is not under \<^verbatim>\<open>src/\<close>.
\<close>

definition create_dual_cells :: "nat \<Rightarrow> nat \<times> int list option list" where
  "create_dual_cells num_dual_cells = (0, replicate num_dual_cells None)"

definition set_face_cell :: "nat \<Rightarrow> int \<Rightarrow> int list \<Rightarrow> error + int list" where
  "set_face_cell c face fc =
     ebind (rd fc (2 * face)) (\<lambda>slot0.
       if slot0 = - 1 then wr fc (2 * face) (int c) else wr fc (2 * face + 1) (int c))"

definition compact_cell :: "int list option list \<Rightarrow> nat \<Rightarrow> int list \<Rightarrow> error + int list" where
  "compact_cell faces_for_dual_cell c fc =
     ebind (rd faces_for_dual_cell (int c)) (\<lambda>p.
       case p of
         None \<Rightarrow> Inl NullPointer
       | Some cell_faces \<Rightarrow> efold (set_face_cell c) cell_faces fc)"

definition compact_cells :: "int list option list \<Rightarrow> nat \<Rightarrow> int list \<Rightarrow> error + int list" where
  "compact_cells faces_for_dual_cell num_dual_cells fc =
     efold (compact_cell faces_for_dual_cell) [0..<num_dual_cells] fc"

subsection \<open>The construction\<close>

text \<open>
  \<^verbatim>\<open>create_dual_mesh_from_tet_mesh\<close> up to the end of the loop that fills
  \<^verbatim>\<open>dual_mesh->face_cells\<close> (line 663). What follows in the source (the copy of the face
  nodes into the flattened array, the release of the working sets and
  \<^verbatim>\<open>mesh_compute_geometry\<close>) works on storage laid out outside \<^verbatim>\<open>src/\<close> and is not
  modelled; a run that fails before line 663 fails whatever follows.
\<close>

record dual_mesh_t =
  dual_vertices :: dual_vertices_t
  dual_faces :: dual_faces_t
  dual_face_cells :: "int list"

definition create_dual_mesh_from_tet_mesh ::
  "geometry_t \<Rightarrow> mesh_t \<Rightarrow> string list \<Rightarrow> string list \<Rightarrow> string list \<Rightarrow> string list \<Rightarrow>
   error + dual_mesh_t" where
  "create_dual_mesh_from_tet_mesh geom tet_mesh external_model_face_tags
     internal_model_face_tags model_edge_tags model_vertex_tags =
     (let tg = build_tagged tet_mesh external_model_face_tags internal_model_face_tags
                 model_edge_tags model_vertex_tags
      in
      ebind (build_incidence tet_mesh tg) (\<lambda>inc.
      let num_dual_nodes = count_dual_nodes tet_mesh tg in
      ebind (count_dual_faces_from_boundary_vertices tet_mesh tg inc) (\<lambda>from_vertices.
      let num_dual_faces = count_dual_faces tet_mesh tg from_vertices;
          num_dual_cells = num_nodes tet_mesh
      in
      ebind (generate_dual_vertices geom tet_mesh external_model_face_tags
               internal_model_face_tags model_edge_tags model_vertex_tags num_dual_nodes)
        (\<lambda>dv.
      ebind (generate_edge_faces geom tet_mesh tg inc (dual_node_for_edge dv) num_dual_faces)
        (\<lambda>df.
      ebind (generate_vertex_faces geom tg inc dv df) (\<lambda>df'.
      let cells = create_dual_cells num_dual_cells in
      if fst cells \<noteq> num_dual_cells then Inl AssertionFailed
      else
        ebind (compact_cells (snd cells) num_dual_cells (replicate (2 * num_dual_faces) (- 1)))
          (\<lambda>fc.
          Inr \<lparr>dual_vertices = dv, dual_faces = df', dual_face_cells = fc\<rparr>)))))))"

text \<open>
  The entry point \<^verbatim>\<open>create_dual_mesh\<close> (lines 709--731) with its four assertions: at
  least one external face tag, one edge tag and one vertex tag, and a tetrahedral mesh.
\<close>

definition create_dual_mesh ::
  "geometry_t \<Rightarrow> mesh_t \<Rightarrow> string list \<Rightarrow> string list \<Rightarrow> string list \<Rightarrow> string list \<Rightarrow>
   error + dual_mesh_t" where
  "create_dual_mesh geom original_mesh external_model_face_tags internal_model_face_tags
     model_edge_tags model_vertex_tags =
     (if \<not> 0 < length external_model_face_tags then Inl AssertionFailed
      else if \<not> 0 < length model_edge_tags then Inl AssertionFailed
      else if \<not> 0 < length model_vertex_tags then Inl AssertionFailed
      else if \<not> mesh_is_tetrahedral original_mesh then Inl AssertionFailed
      else create_dual_mesh_from_tet_mesh geom original_mesh external_model_face_tags
             internal_model_face_tags model_edge_tags model_vertex_tags)"

subsection \<open>Notions used to state the properties\<close>

text \<open>
  \<open>tag_entries\<close> are the element indices the tags of one family resolve to, in the order
  in which the loops over the tags meet them. \<open>dual_node_blocks\<close> is the sequence of dual
  vertices in four contiguous blocks: one vertex per primal cell, one per entry of the
  external and then of the internal face tags, one per entry of the edge tags, one per
  entry of the vertex tags. \<open>model_edge_midpoint\<close> is the vertex lines 347--349 compute
  for a primal edge.
\<close>

definition tag_entries :: "(string \<Rightarrow> int list) \<Rightarrow> string list \<Rightarrow> int list" where
  "tag_entries mesh_tag tags = concat (map mesh_tag tags)"

definition cell_dual_vertex :: "geometry_t \<Rightarrow> point_t" where
  "cell_dual_vertex geom =
     tetrahedron_compute_nearest_point geom (tetrahedron_new geom)
       (tetrahedron_compute_circumcenter geom (tetrahedron_new geom))"

definition model_edge_midpoint :: "geometry_t \<Rightarrow> mesh_t \<Rightarrow> int \<Rightarrow> point_t" where
  "model_edge_midpoint geom tet_mesh edge =
     midpoint_of geom (nodes tet_mesh (edge_nodes tet_mesh (2 * edge)))
       (nodes tet_mesh (edge_nodes tet_mesh (2 * edge + 1)))"

definition dual_node_blocks ::
  "geometry_t \<Rightarrow> mesh_t \<Rightarrow> string list \<Rightarrow> string list \<Rightarrow> string list \<Rightarrow> string list \<Rightarrow>
   point_t list" where
  "dual_node_blocks geom tet_mesh external_model_face_tags internal_model_face_tags
     model_edge_tags model_vertex_tags =
     replicate (num_cells tet_mesh) (cell_dual_vertex geom)
     @ map (face_centers tet_mesh) (tag_entries (face_tags tet_mesh) external_model_face_tags)
     @ map (face_centers tet_mesh) (tag_entries (face_tags tet_mesh) internal_model_face_tags)
     @ map (model_edge_midpoint geom tet_mesh) (tag_entries (edge_tags tet_mesh) model_edge_tags)
     @ map (nodes tet_mesh) (tag_entries (node_tags tet_mesh) model_vertex_tags)"

subsection \<open>Example inputs\<close>

text \<open>
  Stand-ins for the services, used where a property is evaluated on a concrete mesh: the
  tetrahedron with vertices \<open>(0,0,0)\<close>, \<open>(3,0,0)\<close>, \<open>(0,3,0)\<close>, \<open>(0,0,3)\<close> as the one
  \<^verbatim>\<open>tetrahedron_new()\<close> returns, with its circumcentre \<open>(3/2, 3/2, 3/2)\<close> and the point
  of it nearest to that, \<open>(1, 1, 1)\<close>; the projection that takes the first two
  coordinates relative to the origin of the plane; \<open>atan2 y x\<close> replaced by \<open>y\<close>; a
  gift-wrapping that returns the points in the order given; and for the arithmetic the
  sum, the difference and the product of two finite doubles without rounding
  (\<open>exact_op\<close>). \<open>binary64_geometry\<close> has the binary64 operations for \<open>double_add\<close> and
  \<open>double_mul\<close> instead.
\<close>

definition exact_op :: "(real \<Rightarrow> real \<Rightarrow> real) \<Rightarrow> double \<Rightarrow> double \<Rightarrow> double" where
  "exact_op f a b = (case (a, b) of (Finite x, Finite y) \<Rightarrow> Finite (f x y) | _ \<Rightarrow> NaN)"

definition example_geometry :: geometry_t where
  "example_geometry =
     \<lparr>tetrahedron_new = (fpoint 0 0 0, fpoint 3 0 0, fpoint 0 3 0, fpoint 0 0 3),
      tetrahedron_compute_circumcenter = (\<lambda>t. fpoint (3/2) (3/2) (3/2)),
      tetrahedron_compute_nearest_point = (\<lambda>t p. fpoint 1 1 1),
      point_displacement =
        (\<lambda>x1 x2. Point (exact_op (-) (px x2) (px x1)) (exact_op (-) (py x2) (py x1))
                     (exact_op (-) (pz x2) (pz x1))),
      plane_sp_func_project =
        (\<lambda>n origin p. Point2 (exact_op (-) (px p) (px origin))
                           (exact_op (-) (py p) (py origin))),
      atan2 = (\<lambda>y x. y),
      polygon_giftwrap = (\<lambda>ps. map int [0..<length ps]),
      tweener_junk = (\<lambda>k. Ordering (Finite 0) (- 7)),
      double_add = exact_op (+),
      double_mul = exact_op (*)\<rparr>"

definition binary64_geometry :: geometry_t where
  "binary64_geometry =
     example_geometry\<lparr>double_add := binary64_add, double_mul := binary64_mul\<rparr>"

definition table :: "'a \<Rightarrow> 'a list \<Rightarrow> int \<Rightarrow> 'a" where
  "table d xs i = (if 0 \<le> i \<and> i < int (length xs) then xs ! nat i else d)"

text \<open>
  Two tetrahedra glued along a triangle: nodes \<open>p q r\<close> (0, 1, 2) span the shared face 0,
  node \<open>s\<close> (3) lies above it and node \<open>t\<close> (4) below; \<open>p = (3,0,0)\<close>, \<open>q = (3,3,0)\<close>,
  \<open>r = (0,3,0)\<close>, \<open>s = (0,0,3)\<close>, \<open>t = (0,0,-3)\<close>. Cell 0 is \<open>pqrs\<close>, cell 1 is
  \<open>pqrt\<close>. Edges 0, 1, 2 are \<open>pq\<close>, \<open>qr\<close>, \<open>rp\<close>; edges 3, 4, 5 join \<open>p q r\<close> to \<open>s\<close> and
  edges 6, 7, 8 join them to \<open>t\<close>. Faces 1, 2, 3 are the outer faces of cell 0 and faces
  4, 5, 6 those of cell 1. The centres are the centroids.
\<close>

definition bipyramid :: mesh_t where
  "bipyramid =
     \<lparr>num_cells = 2, num_edges = 9, num_nodes = 5,
      nodes = table (fpoint 0 0 0)
        [fpoint 3 0 0, fpoint 3 3 0, fpoint 0 3 0, fpoint 0 0 3, fpoint 0 0 (- 3)],
      edge_nodes = table (- 1) [0, 1, 1, 2, 2, 0, 0, 3, 1, 3, 2, 3, 0, 4, 1, 4, 2, 4],
      face_cells = table (- 1) [0, 1, 0, - 1, 0, - 1, 0, - 1, 1, - 1, 1, - 1, 1, - 1],
      face_centers = table (fpoint 0 0 0)
        [fpoint 2 2 0, fpoint 2 1 1, fpoint 1 2 1, fpoint 1 1 1, fpoint 2 1 (- 1),
         fpoint 1 2 (- 1), fpoint 1 1 (- 1)],
      cell_centers = table (fpoint 0 0 0)
        [fpoint (3/2) (3/2) (3/4), fpoint (3/2) (3/2) (- 3/4)],
      mesh_cell_faces = table [] [[0, 1, 2, 3], [0, 4, 5, 6]],
      mesh_face_edges = table []
        [[0, 1, 2], [0, 4, 3], [1, 5, 4], [2, 3, 5], [0, 7, 6], [1, 8, 7], [2, 6, 8]],
      mesh_face_nodes = table []
        [[0, 1, 2], [0, 1, 3], [1, 2, 3], [2, 0, 3], [0, 1, 4], [1, 2, 4], [2, 0, 4]],
      mesh_cell_face_for_neighbor =
        (\<lambda>c1 c2. if (c1 = 0 \<and> c2 = 1) \<or> (c1 = 1 \<and> c2 = 0) then 0 else - 1),
      face_tags = (\<lambda>name. if name = ''middle'' then [0]
                          else if name = ''outer'' then [1, 2, 3, 4, 5, 6] else []),
      edge_tags = (\<lambda>name. if name = ''rim'' then [0, 1, 2]
                          else if name = ''swapped'' then [1, 0]
                          else if name = ''spoke'' then [5]
                          else if name = ''rim again'' then [2] else []),
      node_tags = (\<lambda>name. if name = ''apex'' then [3] else []),
      mesh_is_tetrahedral = True\<rparr>"


text \<open>
  A fan of four tetrahedra around the edge \<open>ab\<close> (edge 0; \<open>a\<close> is node 0, \<open>b\<close> node 1): cell
  \<open>k\<close> is \<open>a b c\<^sub>k c\<^sub>k\<^sub>+\<^sub>1\<close> for the outer nodes \<open>c\<^sub>0 \<dots> c\<^sub>4\<close> (nodes 2 to 6) on a
  half circle. Face \<open>k\<close> (for \<open>k < 5\<close>) is the triangle \<open>a b c\<^sub>k\<close>; faces 0 and 4 are the
  two flat sides of the fan, on the boundary of the mesh, and the tag \<open>sides\<close> holds them.
\<close>

definition fan_mesh :: mesh_t where
  "fan_mesh =
     \<lparr>num_cells = 4, num_edges = 15, num_nodes = 7,
      nodes = table (fpoint 0 0 0)
        [fpoint 0 0 3, fpoint 0 0 (- 3), fpoint 6 0 0, fpoint 3 6 0, fpoint 0 9 0,
         fpoint (- 3) 6 0, fpoint (- 6) 0 0],
      edge_nodes = table (- 1)
        [0, 1, 0, 2, 0, 3, 0, 4, 0, 5, 0, 6, 1, 2, 1, 3, 1, 4, 1, 5, 1, 6, 2, 3, 3, 4, 4,
         5, 5, 6],
      face_cells = table (- 1)
        [0, - 1, 0, 1, 1, 2, 2, 3, 3, - 1, 0, - 1, 1, - 1, 2, - 1, 3, - 1, 0, - 1, 1, - 1,
         2, - 1, 3, - 1],
      face_centers = table (fpoint 0 0 0)
        [fpoint 2 0 0, fpoint 1 2 0, fpoint 0 3 0, fpoint (- 1) 2 0,
         fpoint (- 2) 0 0, fpoint 3 2 1, fpoint 1 5 1,
         fpoint (- 1) 5 1, fpoint (- 3) 2 1, fpoint 3 2 (- 1),
         fpoint 1 5 (- 1), fpoint (- 1) 5 (- 1), fpoint (- 3) 2 (- 1)],
      cell_centers = table (fpoint 0 0 0)
        [fpoint (9/4) (3/2) 0, fpoint (3/4) (15/4) 0, fpoint (- 3/4) (15/4) 0,
         fpoint (- 9/4) (3/2) 0],
      mesh_cell_faces = table []
        [[0, 1, 5, 9], [1, 2, 6, 10], [2, 3, 7, 11], [3, 4, 8, 12]],
      mesh_face_edges = table []
        [[0, 6, 1], [0, 7, 2], [0, 8, 3], [0, 9, 4], [0, 10, 5], [1, 11, 2], [2, 12, 3],
         [3, 13, 4], [4, 14, 5], [6, 11, 7], [7, 12, 8], [8, 13, 9], [9, 14, 10]],
      mesh_face_nodes = table []
        [[0, 1, 2], [0, 1, 3], [0, 1, 4], [0, 1, 5], [0, 1, 6], [0, 2, 3], [0, 3, 4],
         [0, 4, 5], [0, 5, 6], [1, 2, 3], [1, 3, 4], [1, 4, 5], [1, 5, 6]],
      mesh_cell_face_for_neighbor =
        (\<lambda>c1 c2. case map_of
           [((0, 1), 1), ((1, 0), 1), ((1, 2), 2), ((2, 1), 2), ((2, 3), 3), ((3, 2), 3)]
           (c1, c2) of None \<Rightarrow> - 1 | Some face \<Rightarrow> face),
      face_tags = (\<lambda>name. if name = ''sides'' then [0, 4] else []),
      edge_tags = (\<lambda>name. []),
      node_tags = (\<lambda>name. []),
      mesh_is_tetrahedral = True\<rparr>"

text \<open>
  Six tetrahedra around the edge \<open>ab\<close> (edge 0; \<open>a\<close> is node 0, \<open>b\<close> node 1), with the outer
  nodes \<open>c\<^sub>0 \<dots> c\<^sub>5\<close> (nodes 2 to 7) on a hexagon around it. Going round the edge, the
  tetrahedron \<open>a b c\<^sub>k c\<^sub>k\<^sub>+\<^sub>1\<close> is cell 3, 0, 2, 4, 1, 5 for \<open>k = 0, \<dots>, 5\<close>. Face \<open>k\<close>
  (for \<open>k < 6\<close>) is the triangle \<open>a b c\<^sub>k\<close> between two neighbouring cells; faces 6 to 11
  and 12 to 17 are the outer faces at \<open>a\<close> and at \<open>b\<close>. The tag \<open>interface\<close> holds faces 1
  and 4, which lie in one plane through the edge and separate cells 0, 2, 4 from cells
  1, 5, 3. \<open>ring_geometry\<close> is \<open>example_geometry\<close> with a gift-wrapping that returns the
  six cell centres around the edge in their order round the edge.
\<close>

definition ring_mesh :: mesh_t where
  "ring_mesh =
     \<lparr>num_cells = 6, num_edges = 19, num_nodes = 8,
      nodes = table (fpoint 0 0 0)
        [fpoint 0 0 3, fpoint 0 0 (- 3), fpoint 6 0 0, fpoint 3 6 0, fpoint (- 3) 6 0,
         fpoint (- 6) 0 0, fpoint (- 3) (- 6) 0, fpoint 3 (- 6) 0],
      edge_nodes = table (- 1)
        [0, 1, 0, 2, 0, 3, 0, 4, 0, 5, 0, 6, 0, 7, 1, 2, 1, 3, 1, 4, 1, 5, 1, 6, 1, 7, 2,
         3, 3, 4, 4, 5, 5, 6, 6, 7, 7, 2],
      face_cells = table (- 1)
        [5, 3, 3, 0, 0, 2, 2, 4, 4, 1, 1, 5, 3, - 1, 0, - 1, 2, - 1, 4, - 1, 1, - 1, 5,
         - 1, 3, - 1, 0, - 1, 2, - 1, 4, - 1, 1, - 1, 5, - 1],
      face_centers = table (fpoint 0 0 0)
        [fpoint 2 0 0, fpoint 1 2 0, fpoint (- 1) 2 0, fpoint (- 2) 0 0,
         fpoint (- 1) (- 2) 0, fpoint 1 (- 2) 0, fpoint 3 2 1,
         fpoint 0 4 1, fpoint (- 3) 2 1, fpoint (- 3) (- 2) 1,
         fpoint 0 (- 4) 1, fpoint 3 (- 2) 1, fpoint 3 2 (- 1),
         fpoint 0 4 (- 1), fpoint (- 3) 2 (- 1), fpoint (- 3) (- 2) (- 1),
         fpoint 0 (- 4) (- 1), fpoint 3 (- 2) (- 1)],
      cell_centers = table (fpoint 0 0 0)
        [fpoint 0 3 0, fpoint 0 (- 3) 0, fpoint (- 9/4) (3/2) 0, fpoint (9/4) (3/2) 0,
         fpoint (- 9/4) (- 3/2) 0, fpoint (9/4) (- 3/2) 0],
      mesh_cell_faces = table []
        [[1, 2, 7, 13], [4, 5, 10, 16], [2, 3, 8, 14], [0, 1, 6, 12], [3, 4, 9, 15],
         [5, 0, 11, 17]],
      mesh_face_edges = table []
        [[0, 7, 1], [0, 8, 2], [0, 9, 3], [0, 10, 4], [0, 11, 5], [0, 12, 6], [1, 13, 2],
         [2, 14, 3], [3, 15, 4], [4, 16, 5], [5, 17, 6], [6, 18, 1], [7, 13, 8],
         [8, 14, 9], [9, 15, 10], [10, 16, 11], [11, 17, 12], [12, 18, 7]],
      mesh_face_nodes = table []
        [[0, 1, 2], [0, 1, 3], [0, 1, 4], [0, 1, 5], [0, 1, 6], [0, 1, 7], [0, 2, 3],
         [0, 3, 4], [0, 4, 5], [0, 5, 6], [0, 6, 7], [0, 7, 2], [1, 2, 3], [1, 3, 4],
         [1, 4, 5], [1, 5, 6], [1, 6, 7], [1, 7, 2]],
      mesh_cell_face_for_neighbor =
        (\<lambda>c1 c2. case map_of
           [((5, 3), 0), ((3, 5), 0), ((3, 0), 1), ((0, 3), 1), ((0, 2), 2), ((2, 0), 2),
            ((2, 4), 3), ((4, 2), 3), ((4, 1), 4), ((1, 4), 4), ((1, 5), 5), ((5, 1), 5)]
           (c1, c2) of None \<Rightarrow> - 1 | Some face \<Rightarrow> face),
      face_tags = (\<lambda>name. if name = ''interface'' then [1, 4] else []),
      edge_tags = (\<lambda>name. []),
      node_tags = (\<lambda>name. []),
      mesh_is_tetrahedral = True\<rparr>"

definition ring_geometry :: geometry_t where
  "ring_geometry =
     example_geometry\<lparr>polygon_giftwrap :=
       (\<lambda>ps. if length ps = 6 then [3, 0, 2, 4, 1, 5] else map int [0..<length ps])\<rparr>"

section \<open>Properties\<close>

subsection \<open>Basic facts\<close>

lemma ebind_Inr [simp]: "ebind (Inr a) f = f a"
  by (simp add: ebind_def)

lemma ebind_Inl [simp]: "ebind (Inl e) f = Inl e"
  by (simp add: ebind_def)

lemma ebind_eq_Inr: "ebind m f = Inr b \<longleftrightarrow> (\<exists>a. m = Inr a \<and> f a = Inr b)"
  by (cases m) auto

lemma rd_nat [simp]:
  "rd xs (int i) = (if i < length xs then Inr (xs ! i) else Inl OutOfBounds)"
  by (simp add: rd_def)

lemma wr_nat [simp]:
  "wr xs (int i) v = (if i < length xs then Inr (xs[i := v]) else Inl OutOfBounds)"
  by (simp add: wr_def)

lemma efold_append:
  "efold body (as @ bs) s = ebind (efold body as s) (efold body bs)"
  by (induction as arbitrary: s) (auto split: sum.splits)

lemma length_qsort_insert: "length (qsort_insert cmp a bs) = Suc (length bs)"
  by (induction bs) auto

lemma length_qsort: "length (qsort cmp as) = length as"
  by (induction as) (auto simp: qsort_def length_qsort_insert)

subsection \<open>The ordering of the nodes of an external-boundary dual face\<close>

lemma order_nodes_two:
  assumes "length dual_node_indices = 2"
    and "fst endpoint_indices \<noteq> - 1" and "snd endpoint_indices \<noteq> - 1"
    and "fst endpoint_indices \<noteq> snd endpoint_indices"
  shows "order_nodes_of_dual_face project at2 endpoint_indices dual_nodes 2
           dual_node_indices junk = Inr [fst endpoint_indices, snd endpoint_indices]"
proof -
  obtain a b where d: "dual_node_indices = [a, b]"
    using assms(1) by (auto simp: length_Suc_conv numeral_2_eq_2)
  show ?thesis using assms(2-4) by (simp add: order_nodes_of_dual_face_def d wr_def)
qed

lemma order_nodes_three:
  assumes "length dual_node_indices = 3"
    and "fst endpoint_indices \<in> {0, 1, 2}" and "snd endpoint_indices \<in> {0, 1, 2}"
    and "fst endpoint_indices \<noteq> snd endpoint_indices"
  shows "\<exists>mid. order_nodes_of_dual_face project at2 endpoint_indices dual_nodes 3
           dual_node_indices junk = Inr [fst endpoint_indices, mid, snd endpoint_indices]
         \<and> mid \<in> {0, 1, 2} \<and> mid \<noteq> fst endpoint_indices \<and> mid \<noteq> snd endpoint_indices"
proof -
  obtain a b c where d: "dual_node_indices = [a, b, c]"
    using assms(1) by (auto simp: length_Suc_conv numeral_3_eq_3)
  show ?thesis using assms(2-4)
    by (auto simp: order_nodes_of_dual_face_def d wr_def rd_def middle_node_def)
qed

lemma tweener_loop_ok:
  assumes "3 \<le> length d" and "0 < length tw" and "\<forall>i \<in> set is. i < length dual_nodes"
  shows "\<exists>tw'. efold (tweener_step project at2 dual_nodes d) is tw = Inr tw'
               \<and> length tw' = length tw"
  using assms
proof (induction "is" arbitrary: tw)
  case Nil
  then show ?case by simp
next
  case (Cons i "is")
  have "\<exists>t. tweener_step project at2 dual_nodes d i tw = Inr t \<and> length t = length tw"
    using Cons.prems by (auto simp: tweener_step_def rd_def wr_def Let_def)
  then obtain t where t: "tweener_step project at2 dual_nodes d i tw = Inr t"
    "length t = length tw" by blast
  from Cons.IH [of t] Cons.prems t show ?case by simp
qed

lemma put_back_loop_ok:
  assumes "\<forall>i \<in> set is. i < length tw \<and> Suc i < length d"
  shows "\<exists>d'. efold (put_back tw) is d = Inr d' \<and> length d' = length d
            \<and> (\<forall>k. k < length d \<longrightarrow> (\<forall>i \<in> set is. k \<noteq> Suc i) \<longrightarrow> d' ! k = d ! k)"
  using assms
proof (induction "is" arbitrary: d)
  case Nil
  then show ?case by simp
next
  case (Cons i "is")
  have pb: "put_back tw i d = Inr (d[Suc i := index (tw ! i)])"
    using Cons.prems by (simp add: put_back_def wr_def nat_add_distrib)
  from Cons.IH [of "d[Suc i := index (tw ! i)]"] Cons.prems pb show ?case
    by auto
qed

text \<open>
  Claim C1 (external-boundary edge: the node list is a path from one endpoint to the
  other, and with more than three incident cells its last entry is the second endpoint).
  With two cells the result is \<open>[endpoint0, endpoint1]\<close> (\<open>order_nodes_two\<close>) and with three
  the remaining position stands in the middle (\<open>order_nodes_three\<close>). With more than three
  cells the source stores \<^verbatim>\<open>endpoint_indices[0]\<close> in the last slot as well: whenever the
  assertions of the function hold, the call returns a list that begins and ends with the
  first endpoint, so its last entry is not the second endpoint.
\<close>

theorem order_nodes_many_last:
  assumes "3 < n" and "length dual_node_indices = n"
    and "length dual_nodes = n"
    and "fst endpoint_indices \<noteq> - 1" and "snd endpoint_indices \<noteq> - 1"
    and "fst endpoint_indices \<noteq> snd endpoint_indices"
  shows "\<exists>r. order_nodes_of_dual_face project at2 endpoint_indices dual_nodes n
               dual_node_indices junk = Inr r
            \<and> length r = n \<and> r ! 0 = fst endpoint_indices
            \<and> last r = fst endpoint_indices \<and> last r \<noteq> snd endpoint_indices"
proof -
  obtain tw where tw: "efold (tweener_step project at2 dual_nodes dual_node_indices)
      [0..<n] (map junk [0..<n - 2]) = Inr tw"
    "length tw = n - 2"
    using tweener_loop_ok [of dual_node_indices "map junk [0..<n - 2]"
        "[0..<n]" dual_nodes project at2] assms by auto
  let ?tw = "qsort dual_face_node_cmp tw"
  let ?d = "dual_node_indices[0 := fst endpoint_indices]"
  have w0: "wr dual_node_indices 0 (fst endpoint_indices) = Inr ?d"
    using assms by (simp add: wr_def)
  have "\<forall>i \<in> set [0..<n - 2]. i < length ?tw \<and> Suc i < length ?d"
    using assms tw by (auto simp: length_qsort)
  from put_back_loop_ok [OF this]
  obtain d' where d': "efold (put_back ?tw) [0..<n - 2] ?d = Inr d'"
    "length d' = length ?d"
    "\<forall>k. k < length ?d \<longrightarrow> (\<forall>i \<in> set [0..<n - 2]. k \<noteq> Suc i) \<longrightarrow> d' ! k = ?d ! k"
    by blast
  have d0: "d' ! 0 = fst endpoint_indices"
    using d'(3) assms by auto
  let ?r = "d'[n - 1 := fst endpoint_indices]"
  have wl: "wr d' (int n - 1) (fst endpoint_indices) = Inr ?r"
    using assms d' by (simp add: wr_def nat_diff_distrib')
  have "order_nodes_of_dual_face project at2 endpoint_indices dual_nodes n
               dual_node_indices junk = Inr ?r"
    using assms tw(1) w0 d'(1) wl by (simp add: order_nodes_of_dual_face_def)
  moreover have "length ?r = n" using d'(2) assms by simp
  moreover have "?r ! 0 = fst endpoint_indices" using d0 d'(2) assms by simp
  moreover have "last ?r = fst endpoint_indices"
  proof -
    have len: "length ?r = n" using d'(2) assms by simp
    then have "?r \<noteq> []" using assms by auto
    then have "last ?r = ?r ! (length ?r - 1)" by (rule last_conv_nth)
    also have "\<dots> = fst endpoint_indices" using len assms by simp
    finally show ?thesis .
  qed
  ultimately show ?thesis using assms by auto
qed

theorem order_nodes_many_last_witness:
  "\<exists>r. order_nodes_of_dual_face (\<lambda>p. Point2 (px p) (py p)) (\<lambda>y x. y) (0, 1)
          [fpoint 0 0 0, fpoint 1 1 0, fpoint 2 3 0, fpoint 5 4 0] 4 [10, 11, 12, 13]
          (\<lambda>k. Ordering (Finite 0) (- 7)) = Inr r
       \<and> length r = 4 \<and> r ! 0 = 0 \<and> last r = 0 \<and> last r \<noteq> 1"
  using order_nodes_many_last [of 4 "[10, 11, 12, 13]"
      "[fpoint 0 0 0, fpoint 1 1 0, fpoint 2 3 0, fpoint 5 4 0]" "(0, 1)"
      "\<lambda>p. Point2 (px p) (py p)" "\<lambda>y x. y" "\<lambda>k. Ordering (Finite 0) (- 7)"]
  by simp

text \<open>
  The same call evaluated, with four cells numbered 10 to 13 around the edge: one slot of
  the interior holds the last projected node, the other the never-written content of
  \<^verbatim>\<open>tweener_nodes[1]\<close> (here \<open>-7\<close>), and cell position \<open>2\<close> does not occur.
\<close>

lemma order_nodes_four_example:
  "order_nodes_of_dual_face (\<lambda>p. Point2 (px p) (py p)) (\<lambda>y x. y) (0, 1)
     [fpoint 0 0 0, fpoint 1 1 0, fpoint 2 3 0, fpoint 5 4 0] 4 [10, 11, 12, 13]
     (\<lambda>k. Ordering (Finite 0) (- 7)) = Inr [0, - 7, 3, 0]"
  by code_simp

text \<open>
  The same seen from a mesh: in the fan of four tetrahedra with its two flat sides tagged
  as external faces, edge 0 has the cells 0, 1, 2, 3 around it, of which 0 and 3 are on
  the boundary. The path from one endpoint to the other is \<open>[0, 1, 2, 3]\<close>; the face
  stored is \<open>[0, -7, 3, 0]\<close>, where \<open>-7\<close> is the content of the slot no statement wrote.
\<close>

lemma fan_external_edge:
  "(case build_incidence fan_mesh (build_tagged fan_mesh [''sides''] [] [''none''] [''none'']) of
      Inl err \<Rightarrow> False
    | Inr inc \<Rightarrow>
       (case count_dual_faces_from_boundary_vertices fan_mesh
               (build_tagged fan_mesh [''sides''] [] [''none''] [''none'']) inc of
          Inl err \<Rightarrow> False
        | Inr from_vertices \<Rightarrow>
           (case edge_face_step example_geometry fan_mesh
                   (build_tagged fan_mesh [''sides''] [] [''none''] [''none'']) inc Map.empty 0
                   \<lparr>df_offset = 0,
                    face_node_offsets = replicate
                      (count_dual_faces fan_mesh
                         (build_tagged fan_mesh [''sides''] [] [''none''] [''none''])
                         from_vertices + 1) 0,
                    nodes_for_dual_face = replicate
                      (count_dual_faces fan_mesh
                         (build_tagged fan_mesh [''sides''] [] [''none''] [''none''])
                         from_vertices) None\<rparr> of
              Inl err \<Rightarrow> False
            | Inr st \<Rightarrow>
                int_unordered_set_contains
                  (external_model_face_edges
                     (build_tagged fan_mesh [''sides''] [] [''none''] [''none''])) 0
                \<and> primal_cells_for_edge inc ! 0 = Some [0, 1, 2, 3]
                \<and> external_boundary_tets
                     (build_tagged fan_mesh [''sides''] [] [''none''] [''none'']) = [0, 3]
                \<and> find_endpoints (build_tagged fan_mesh [''sides''] [] [''none''] [''none''])
                     [0, 1, 2, 3] = (0, 3)
                \<and> nodes_for_dual_face st ! 0 = Some [Some 0, Some (- 7), Some 3, Some 0])))"
  by code_simp

subsection \<open>Binary64 arithmetic\<close>






lemma binary64_round_exact:
  assumes "\<lfloor>log 2 \<bar>x\<bar>\<rfloor> = e" and "- 1022 \<le> e" and "x = of_int n * 2 powr of_int (e - 52)"
    and "x \<noteq> 0"
  shows "binary64_round x
           = (if 2 ^ 1024 \<le> x then PlusInfinity else if x \<le> - (2 ^ 1024) then MinusInfinity
              else Finite x)"
proof -
  have q: "binary64_quantum x = 2 powr of_int (e - 52)"
    using assms(1,2) by (simp add: binary64_quantum_def)
  have "x / 2 powr of_int (e - 52) = of_int n" using assms(3) by simp
  then have "round_half_even (x / binary64_quantum x) = n"
    by (simp add: q round_half_even_def)
  then have "of_int (round_half_even (x / binary64_quantum x)) * binary64_quantum x = x"
    using assms(3) q by simp
  then show ?thesis using assms(4) by (simp add: binary64_round_def Let_def)
qed


lemma binary64_midpoint_rounds:
  "binary64_mul (Finite (1 / 2)) (binary64_add (Finite 1) (Finite (1 / 2 ^ 60))) = Finite (1 / 2)"
proof -
  define x :: real where "x = 1 + 1 / 2 ^ 60"
  have e: "\<lfloor>log 2 \<bar>x\<bar>\<rfloor> = 0"
    unfolding x_def by (subst floor_log_eq_powr_iff) simp_all
  then have q: "binary64_quantum x = 1 / 2 ^ 52"
    by (simp add: binary64_quantum_def powr_minus_divide)
  have d: "x / binary64_quantum x = 2 ^ 52 + 1 / 2 ^ 8" unfolding q by (simp add: x_def)
  have n0: "round_half_even (2 ^ 52 + 1 / 2 ^ 8) = 2 ^ 52"
    by (simp add: round_half_even_def)
  have n: "round_half_even (x / binary64_quantum x) = 2 ^ 52" by (simp only: d n0)
  have val: "of_int (round_half_even (x / binary64_quantum x)) * binary64_quantum x = 1"
    by (subst n, subst q) simp
  have "x \<noteq> 0" unfolding x_def by simp
  then have r1: "binary64_round x = Finite 1"
    unfolding binary64_round_def Let_def val by simp
  define h :: real where "h = 1 / 2"
  have "\<lfloor>log 2 \<bar>h\<bar>\<rfloor> = - 1"
    unfolding h_def by (subst floor_log_eq_powr_iff) (simp_all add: powr_minus_divide)
  moreover have "h = of_int (2 ^ 52) * 2 powr of_int (- 1 - 52)"
    unfolding h_def by (simp add: powr_minus_divide)
  moreover have "h \<noteq> 0" "\<not> 2 ^ 1024 \<le> h" "\<not> h \<le> - (2 ^ 1024)" unfolding h_def by simp_all
  ultimately have r2: "binary64_round h = Finite h"
    using binary64_round_exact [of h "- 1" "2 ^ 52"] by simp
  have "binary64_add (Finite 1) (Finite (1 / 2 ^ 60)) = binary64_round x"
    unfolding x_def by simp
  moreover have "binary64_mul (Finite (1 / 2)) (Finite 1) = binary64_round h"
    unfolding h_def by simp
  ultimately show ?thesis using r1 r2 by (simp add: h_def)
qed

lemma binary64_round_representable:
  assumes "\<lfloor>log 2 \<bar>x\<bar>\<rfloor> = e" and "- 1022 \<le> e" and "x = of_int n * 2 powr of_int (e - 52)"
    and "x \<noteq> 0" and "\<bar>x\<bar> < 2 ^ 1024"
  shows "binary64_round x = Finite x"
proof -
  have "\<not> 2 ^ 1024 \<le> x" "\<not> x \<le> - (2 ^ 1024)" using assms(5) by linarith+
  with binary64_round_exact [OF assms(1-4)] show ?thesis by (simp only: if_False)
qed

lemma binary64_round_small:
  "binary64_round 0 = Finite 0" "binary64_round 6 = Finite 6" "binary64_round 3 = Finite 3"
  "binary64_round (3 / 2) = Finite (3 / 2)"
proof -
  show "binary64_round 0 = Finite 0" by (simp add: binary64_round_def)
  show "binary64_round 6 = Finite 6"
    by (rule binary64_round_representable [of 6 2 "3 * 2 ^ 51"])
      (simp_all add: floor_log_eq_powr_iff powr_minus_divide)
  show "binary64_round 3 = Finite 3"
    by (rule binary64_round_representable [of 3 1 "3 * 2 ^ 51"])
      (simp_all add: floor_log_eq_powr_iff powr_minus_divide)
  show "binary64_round (3 / 2) = Finite (3 / 2)"
    by (rule binary64_round_representable [of "3 / 2" 0 "3 * 2 ^ 51"])
      (simp_all add: floor_log_eq_powr_iff powr_minus_divide)
qed

subsection \<open>Dual vertices\<close>

lemma block_loop:
  assumes ok: "\<And>x st. dv_offset st < length (dual_mesh_nodes st) \<Longrightarrow>
                 \<exists>st'. step x st = Inr st'
                   \<and> dual_mesh_nodes st' = (dual_mesh_nodes st)[dv_offset st := Some (val x)]
                   \<and> dv_offset st' = Suc (dv_offset st)"
    and bad: "\<And>x st. \<not> dv_offset st < length (dual_mesh_nodes st) \<Longrightarrow>
                 step x st = Inl OutOfBounds"
    and "dual_mesh_nodes st = pre @ rest" and "dv_offset st = length pre"
  shows "if length xs \<le> length rest
         then \<exists>st'. efold step xs st = Inr st'
                \<and> dual_mesh_nodes st' = pre @ map (\<lambda>x. Some (val x)) xs @ drop (length xs) rest
                \<and> dv_offset st' = length pre + length xs
         else efold step xs st = Inl OutOfBounds"
  using assms(3,4)
proof (induction xs arbitrary: st pre rest)
  case Nil
  then show ?case by simp
next
  case (Cons x xs)
  show ?case
  proof (cases rest)
    case Nil
    with Cons.prems have "\<not> dv_offset st < length (dual_mesh_nodes st)" by simp
    from bad [OF this] Nil show ?thesis by simp
  next
    case (Cons r rest')
    with Cons.prems have "dv_offset st < length (dual_mesh_nodes st)" by simp
    from ok [OF this] obtain st1 where st1: "step x st = Inr st1"
      "dual_mesh_nodes st1 = (dual_mesh_nodes st)[dv_offset st := Some (val x)]"
      "dv_offset st1 = Suc (dv_offset st)" by blast
    have n1: "dual_mesh_nodes st1 = (pre @ [Some (val x)]) @ rest'"
      using st1(2) Cons.prems Cons by (simp add: list_update_append)
    have d1: "dv_offset st1 = length (pre @ [Some (val x)])"
      using st1(3) Cons.prems by simp
    from Cons.IH [OF n1 d1] st1(1) Cons show ?thesis by (auto split: if_splits)
  qed
qed

lemma tags_loop:
  assumes ok: "\<And>x st. dv_offset st < length (dual_mesh_nodes st) \<Longrightarrow>
                 \<exists>st'. step x st = Inr st'
                   \<and> dual_mesh_nodes st' = (dual_mesh_nodes st)[dv_offset st := Some (v (snd x))]
                   \<and> dv_offset st' = Suc (dv_offset st)"
    and bad: "\<And>x st. \<not> dv_offset st < length (dual_mesh_nodes st) \<Longrightarrow>
                 step x st = Inl OutOfBounds"
    and "dual_mesh_nodes st = pre @ rest" and "dv_offset st = length pre"
  shows "if length (concat (map mesh_tag tags)) \<le> length rest
         then \<exists>st'. efor_tags mesh_tag tags step st = Inr st'
                \<and> dual_mesh_nodes st' = pre @ map (\<lambda>a. Some (v a)) (concat (map mesh_tag tags))
                     @ drop (length (concat (map mesh_tag tags))) rest
                \<and> dv_offset st' = length pre + length (concat (map mesh_tag tags))
         else efor_tags mesh_tag tags step st = Inl OutOfBounds"
  using assms(3,4)
proof (induction tags arbitrary: st pre rest)
  case Nil
  then show ?case by (simp add: efor_tags_def)
next
  case (Cons name tags)
  let ?t = "mesh_tag name"
  have vals: "map (\<lambda>x. Some (v (snd x))) (enumerate 0 ?t) = map (\<lambda>a. Some (v a)) ?t"
    by (simp add: enumerate_eq_zip map_snd_zip_take flip: map_map [of "\<lambda>a. Some (v a)" snd, unfolded comp_def])
  note inner = block_loop [of step "\<lambda>x. v (snd x)", OF ok bad Cons.prems, of "enumerate 0 ?t",
      unfolded vals length_enumerate]
  show ?case
  proof (cases "length ?t \<le> length rest")
    case False
    with inner show ?thesis by (simp add: efor_tags_def)
  next
    case True
    with inner obtain st1 where st1: "efold step (enumerate 0 ?t) st = Inr st1"
      "dual_mesh_nodes st1 = (pre @ map (\<lambda>a. Some (v a)) ?t) @ drop (length ?t) rest"
      "dv_offset st1 = length (pre @ map (\<lambda>a. Some (v a)) ?t)" by auto
    from Cons.IH [OF st1(2,3)] st1(1) True show ?thesis
      by (auto simp: efor_tags_def add.commute split: if_splits)
  qed
qed


lemma put_dual_node_eq:
  "put_dual_node p st =
     (if dv_offset st < length (dual_mesh_nodes st)
      then Inr (st\<lparr>dual_mesh_nodes := (dual_mesh_nodes st)[dv_offset st := Some p]\<rparr>)
      else Inl OutOfBounds)"
  by (simp add: put_dual_node_def)

lemma cell_vertex_step_ok:
  "dv_offset st < length (dual_mesh_nodes st) \<Longrightarrow>
     \<exists>st'. cell_vertex_step geom (tetrahedron_new geom) c st = Inr st'
       \<and> dual_mesh_nodes st' = (dual_mesh_nodes st)[dv_offset st := Some (cell_dual_vertex geom)]
       \<and> dv_offset st' = Suc (dv_offset st)"
  by (simp add: cell_vertex_step_def put_dual_node_eq cell_dual_vertex_def)

lemma cell_vertex_step_bad:
  "\<not> dv_offset st < length (dual_mesh_nodes st) \<Longrightarrow>
     cell_vertex_step geom tet c st = Inl OutOfBounds"
  by (simp add: cell_vertex_step_def put_dual_node_eq)

lemma model_face_vertex_step_ok:
  "dv_offset st < length (dual_mesh_nodes st) \<Longrightarrow>
     \<exists>st'. model_face_vertex_step m x st = Inr st'
       \<and> dual_mesh_nodes st' = (dual_mesh_nodes st)[dv_offset st := Some (face_centers m (snd x))]
       \<and> dv_offset st' = Suc (dv_offset st)"
  by (simp add: model_face_vertex_step_def put_dual_node_eq Let_def)

lemma model_face_vertex_step_bad:
  "\<not> dv_offset st < length (dual_mesh_nodes st) \<Longrightarrow>
     model_face_vertex_step m x st = Inl OutOfBounds"
  by (simp add: model_face_vertex_step_def put_dual_node_eq Let_def)

lemma model_edge_vertex_step_ok:
  "dv_offset st < length (dual_mesh_nodes st) \<Longrightarrow>
     \<exists>st'. model_edge_vertex_step geom m x st = Inr st'
       \<and> dual_mesh_nodes st'
           = (dual_mesh_nodes st)[dv_offset st := Some (model_edge_midpoint geom m (snd x))]
       \<and> dv_offset st' = Suc (dv_offset st)"
  by (simp add: model_edge_vertex_step_def put_dual_node_eq model_edge_midpoint_def Let_def)

lemma model_edge_vertex_step_bad:
  "\<not> dv_offset st < length (dual_mesh_nodes st) \<Longrightarrow>
     model_edge_vertex_step geom m x st = Inl OutOfBounds"
  by (simp add: model_edge_vertex_step_def put_dual_node_eq Let_def)

lemma model_vertex_vertex_step_ok:
  "dv_offset st < length (dual_mesh_nodes st) \<Longrightarrow>
     \<exists>st'. model_vertex_vertex_step m x st = Inr st'
       \<and> dual_mesh_nodes st' = (dual_mesh_nodes st)[dv_offset st := Some (nodes m (snd x))]
       \<and> dv_offset st' = Suc (dv_offset st)"
  by (simp add: model_vertex_vertex_step_def put_dual_node_eq Let_def)

lemma model_vertex_vertex_step_bad:
  "\<not> dv_offset st < length (dual_mesh_nodes st) \<Longrightarrow>
     model_vertex_vertex_step m x st = Inl OutOfBounds"
  by (simp add: model_vertex_vertex_step_def put_dual_node_eq Let_def)

lemma generate_dual_vertices_result:
  "if N = length (dual_node_blocks geom m ext_tags int_tags e_tags v_tags)
   then \<exists>st. generate_dual_vertices geom m ext_tags int_tags e_tags v_tags N = Inr st
          \<and> dual_mesh_nodes st = map Some (dual_node_blocks geom m ext_tags int_tags e_tags v_tags)
          \<and> dv_offset st = N
   else generate_dual_vertices geom m ext_tags int_tags e_tags v_tags N
          = Inl (if N < length (dual_node_blocks geom m ext_tags int_tags e_tags v_tags)
                 then OutOfBounds else AssertionFailed)"
proof -
  let ?st0 = "\<lparr>dual_mesh_nodes = replicate N None, dv_offset = 0,
                dual_node_for_model_face = Map.empty, dual_node_for_edge = Map.empty\<rparr>"
  let ?B1 = "map (\<lambda>c. Some (cell_dual_vertex geom)) [0..<num_cells m]"
  let ?ext = "concat (map (face_tags m) ext_tags)"
  let ?int = "concat (map (face_tags m) int_tags)"
  let ?edg = "concat (map (edge_tags m) e_tags)"
  let ?vtx = "concat (map (node_tags m) v_tags)"
  let ?B2 = "map (\<lambda>a. Some (face_centers m a)) ?ext"
  let ?B3 = "map (\<lambda>a. Some (face_centers m a)) ?int"
  let ?B4 = "map (\<lambda>a. Some (model_edge_midpoint geom m a)) ?edg"
  let ?B5 = "map (\<lambda>a. Some (nodes m a)) ?vtx"
  let ?R0 = "replicate N (None :: point_t option)"
  have total: "length (dual_node_blocks geom m ext_tags int_tags e_tags v_tags)
                 = num_cells m + length ?ext + length ?int + length ?edg + length ?vtx"
    by (simp add: dual_node_blocks_def tag_entries_def)
  have blocks: "map Some (dual_node_blocks geom m ext_tags int_tags e_tags v_tags)
                  = ?B1 @ ?B2 @ ?B3 @ ?B4 @ ?B5"
    by (simp add: dual_node_blocks_def tag_entries_def map_replicate_const)
  note r1 = block_loop [of "cell_vertex_step geom (tetrahedron_new geom)"
      "\<lambda>c. cell_dual_vertex geom" ?st0 "[]" ?R0 "[0..<num_cells m]",
      OF cell_vertex_step_ok cell_vertex_step_bad]
  show ?thesis
  proof (cases "num_cells m \<le> N")
    case False
    then have ne: "N < length (dual_node_blocks geom m ext_tags int_tags e_tags v_tags)"
      using total by arith
    from False r1 have "generate_dual_vertices geom m ext_tags int_tags e_tags v_tags N = Inl OutOfBounds"
      using TrueI by (simp add: generate_dual_vertices_def)
    with ne show ?thesis by simp
  next
    case c1: True
    with r1 obtain st1 where st1:
      "efold (cell_vertex_step geom (tetrahedron_new geom)) [0..<num_cells m] ?st0 = Inr st1"
      "dual_mesh_nodes st1 = ?B1 @ drop (num_cells m) ?R0"
      "dv_offset st1 = length ?B1" by auto
    note r2 = tags_loop [of "model_face_vertex_step m" "face_centers m" st1 ?B1
        "drop (num_cells m) ?R0" "face_tags m" ext_tags,
        OF model_face_vertex_step_ok model_face_vertex_step_bad st1(2,3)]
    show ?thesis
    proof (cases "length ?ext \<le> N - num_cells m")
      case False
      then have ne: "N < length (dual_node_blocks geom m ext_tags int_tags e_tags v_tags)"
        using total by arith
      from False r2 have "generate_dual_vertices geom m ext_tags int_tags e_tags v_tags N = Inl OutOfBounds"
        using st1(1) by (simp add: generate_dual_vertices_def)
      with ne show ?thesis by simp
    next
      case c2: True
      with r2 obtain st2 where st2:
        "efor_tags (face_tags m) ext_tags (model_face_vertex_step m) st1 = Inr st2"
        "dual_mesh_nodes st2 = (?B1 @ ?B2) @ drop (length ?ext) (drop (num_cells m) ?R0)"
        "dv_offset st2 = length (?B1 @ ?B2)" by auto
      note r3 = tags_loop [of "model_face_vertex_step m" "face_centers m" st2 "?B1 @ ?B2"
          "drop (length ?ext) (drop (num_cells m) ?R0)" "face_tags m" int_tags,
          OF model_face_vertex_step_ok model_face_vertex_step_bad st2(2,3)]
      show ?thesis
      proof (cases "length ?int \<le> N - num_cells m - length ?ext")
        case False
        then have ne: "N < length (dual_node_blocks geom m ext_tags int_tags e_tags v_tags)"
          using total by arith
        from False r3 have "generate_dual_vertices geom m ext_tags int_tags e_tags v_tags N = Inl OutOfBounds"
          using st1(1) st2(1) by (simp add: generate_dual_vertices_def)
        with ne show ?thesis by simp
      next
        case c3: True
        with r3 obtain st3 where st3:
          "efor_tags (face_tags m) int_tags (model_face_vertex_step m) st2 = Inr st3"
          "dual_mesh_nodes st3 = (?B1 @ ?B2 @ ?B3)
             @ drop (length ?int) (drop (length ?ext) (drop (num_cells m) ?R0))"
          "dv_offset st3 = length (?B1 @ ?B2 @ ?B3)" by auto
        note r4 = tags_loop [of "model_edge_vertex_step geom m" "model_edge_midpoint geom m" st3
            "?B1 @ ?B2 @ ?B3"
            "drop (length ?int) (drop (length ?ext) (drop (num_cells m) ?R0))"
            "edge_tags m" e_tags,
            OF model_edge_vertex_step_ok model_edge_vertex_step_bad st3(2,3)]
        show ?thesis
        proof (cases "length ?edg \<le> N - num_cells m - length ?ext - length ?int")
          case False
          then have ne: "N < length (dual_node_blocks geom m ext_tags int_tags e_tags v_tags)"
            using total by arith
          from False r4 have "generate_dual_vertices geom m ext_tags int_tags e_tags v_tags N = Inl OutOfBounds"
            using st1(1) st2(1) st3(1) by (simp add: generate_dual_vertices_def)
          with ne show ?thesis by simp
        next
          case c4: True
          with r4 obtain st4 where st4:
            "efor_tags (edge_tags m) e_tags (model_edge_vertex_step geom m) st3 = Inr st4"
            "dual_mesh_nodes st4 = (?B1 @ ?B2 @ ?B3 @ ?B4)
               @ drop (length ?edg)
                   (drop (length ?int) (drop (length ?ext) (drop (num_cells m) ?R0)))"
            "dv_offset st4 = length (?B1 @ ?B2 @ ?B3 @ ?B4)" by auto
          note r5 = tags_loop [of "model_vertex_vertex_step m" "nodes m" st4
              "?B1 @ ?B2 @ ?B3 @ ?B4"
              "drop (length ?edg)
                   (drop (length ?int) (drop (length ?ext) (drop (num_cells m) ?R0)))"
              "node_tags m" v_tags,
              OF model_vertex_vertex_step_ok model_vertex_vertex_step_bad st4(2,3)]
          show ?thesis
          proof (cases "length ?vtx
                          \<le> N - num_cells m - length ?ext - length ?int - length ?edg")
            case False
            then have ne: "N < length (dual_node_blocks geom m ext_tags int_tags e_tags v_tags)"
              using total by arith
            from False r5 have "generate_dual_vertices geom m ext_tags int_tags e_tags v_tags N = Inl OutOfBounds"
              using st1(1) st2(1) st3(1) st4(1) by (simp add: generate_dual_vertices_def)
            with ne show ?thesis by simp
          next
            case c5: True
            with r5 obtain st5 where st5:
              "efor_tags (node_tags m) v_tags (model_vertex_vertex_step m) st4 = Inr st5"
              "dual_mesh_nodes st5 = (?B1 @ ?B2 @ ?B3 @ ?B4 @ ?B5)
                 @ drop (length ?vtx) (drop (length ?edg)
                     (drop (length ?int) (drop (length ?ext) (drop (num_cells m) ?R0))))"
              "dv_offset st5 = length (?B1 @ ?B2 @ ?B3 @ ?B4 @ ?B5)" by auto
            have run: "generate_dual_vertices geom m ext_tags int_tags e_tags v_tags N
                         = (if dv_offset st5 = N then Inr st5 else Inl AssertionFailed)"
              using st1(1) st2(1) st3(1) st4(1) st5(1)
              by (simp add: generate_dual_vertices_def)
            have off: "dv_offset st5
                         = length (dual_node_blocks geom m ext_tags int_tags e_tags v_tags)"
              using st5(3) total by simp
            show ?thesis
            proof (cases "N = length (dual_node_blocks geom m ext_tags int_tags e_tags v_tags)")
              case True
              then have "dual_mesh_nodes st5 = ?B1 @ ?B2 @ ?B3 @ ?B4 @ ?B5"
                using st5(2) total by simp
              with True run off blocks show ?thesis by simp
            next
              case False
              have "length (dual_node_blocks geom m ext_tags int_tags e_tags v_tags) \<le> N"
                using c1 c2 c3 c4 c5 total by arith
              with False run off show ?thesis by simp
            qed
          qed
        qed
      qed
    qed
  qed
qed

lemma generate_dual_vertices_Inr:
  assumes "generate_dual_vertices geom m ext_tags int_tags e_tags v_tags N = Inr st"
  shows "N = length (dual_node_blocks geom m ext_tags int_tags e_tags v_tags)"
    and "dual_mesh_nodes st = map Some (dual_node_blocks geom m ext_tags int_tags e_tags v_tags)"
    and "dv_offset st = N"
  using generate_dual_vertices_result [of N geom m ext_tags int_tags e_tags v_tags] assms
  by (auto split: if_splits)

text \<open>
  Claim C3 (the dual vertex of a primal cell is the circumcentre of that cell's
  tetrahedron, or the point of the cell nearest to it). The loop computes both from the
  tetrahedron \<^verbatim>\<open>tetrahedron_new()\<close> returned and never gives it the vertices of the cell:
  whenever the generation returns, the vertex stored for a cell \<open>c\<close> is one and the same
  point, which depends neither on \<open>c\<close> nor on the mesh.
\<close>

theorem cell_dual_vertex_ignores_cell:
  assumes "generate_dual_vertices geom m ext_tags int_tags e_tags v_tags N = Inr st"
    and "c < num_cells m"
  shows "dual_mesh_nodes st ! c =
           Some (tetrahedron_compute_nearest_point geom (tetrahedron_new geom)
                   (tetrahedron_compute_circumcenter geom (tetrahedron_new geom)))"
  using generate_dual_vertices_Inr(2) [OF assms(1)] assms(2)
  by (simp add: dual_node_blocks_def nth_append cell_dual_vertex_def)

lemma bipyramid_rim_blocks:
  "length (dual_node_blocks geom bipyramid [''middle''] [] [''rim''] [''none'']) = 6"
  by (simp add: dual_node_blocks_def tag_entries_def bipyramid_def)

theorem cell_dual_vertex_ignores_cell_witness:
  "\<exists>st. generate_dual_vertices example_geometry bipyramid [''middle''] [] [''rim''] [''none''] 6 = Inr st
      \<and> dual_mesh_nodes st ! 1 = Some (fpoint 1 1 1)"
proof -
  from generate_dual_vertices_result [of 6 example_geometry bipyramid "[''middle'']" "[]"
      "[''rim'']" "[''none'']"] bipyramid_rim_blocks
  obtain st where st: "generate_dual_vertices example_geometry bipyramid [''middle''] []
      [''rim''] [''none''] 6 = Inr st" by auto
  have "1 < num_cells bipyramid" by (simp add: bipyramid_def)
  from cell_dual_vertex_ignores_cell [OF st this] st show ?thesis
    by (simp add: example_geometry_def)
qed


text \<open>
  For the edges that the tags of the two-tetrahedron mesh hold, the binary64 operations
  give the vertices that the unrounded stand-ins of \<open>example_geometry\<close> give: the sums and
  the halves taken there are binary64 numbers.
\<close>

lemma bipyramid_midpoints_binary64:
  "model_edge_midpoint binary64_geometry bipyramid 0 = model_edge_midpoint example_geometry bipyramid 0"
  "model_edge_midpoint binary64_geometry bipyramid 1 = model_edge_midpoint example_geometry bipyramid 1"
  "model_edge_midpoint binary64_geometry bipyramid 2 = model_edge_midpoint example_geometry bipyramid 2"
  "model_edge_midpoint binary64_geometry bipyramid 5 = model_edge_midpoint example_geometry bipyramid 5"
  by (simp_all add: model_edge_midpoint_def midpoint_of_def binary64_geometry_def
      example_geometry_def bipyramid_def table_def fpoint_def exact_op_def binary64_round_small)




text \<open>
  Two runs on the two-tetrahedron mesh. With the edge tag \<open>[1, 0]\<close> the vertex of edge 0
  (the midpoint of \<open>pq\<close>) is dual node 4, but key 0 leads to dual node 3, the vertex of
  edge 1; with the edge tag \<open>[5]\<close> the vertex of edge 5 is dual node 3, key 5 is absent
  and key 0 leads to that vertex.
\<close>

lemma edge_map_keyed_by_tag_position:
  "(case generate_dual_vertices example_geometry bipyramid [''middle''] [] [''swapped''] [''none''] 5 of
      Inl err \<Rightarrow> False
    | Inr st \<Rightarrow> dual_mesh_nodes st ! 4 = Some (model_edge_midpoint example_geometry bipyramid 0)
               \<and> dual_node_for_edge st 0 = Some 3
               \<and> dual_mesh_nodes st ! 3 = Some (model_edge_midpoint example_geometry bipyramid 1))
   \<and> (case generate_dual_vertices example_geometry bipyramid [''middle''] [] [''spoke''] [''none''] 4 of
      Inl err \<Rightarrow> False
    | Inr st \<Rightarrow> dual_mesh_nodes st ! 3 = Some (model_edge_midpoint example_geometry bipyramid 5)
               \<and> dual_node_for_edge st 5 = None
               \<and> dual_node_for_edge st 0 = Some 3)"
  by code_simp

text \<open>
  With edge 2 in two edge tags of the two-tetrahedron mesh the count is 6; the generation
  makes seven vertices, and the seventh falls outside \<^verbatim>\<open>dual_mesh->nodes\<close>.
\<close>

lemma duplicate_tag_entry_overruns:
  "count_dual_nodes bipyramid (build_tagged bipyramid [''middle''] [] [''rim'', ''rim again''] [''none'']) = 6
   \<and> (case generate_dual_vertices example_geometry bipyramid [''middle''] []
              [''rim'', ''rim again''] [''none'']
              (count_dual_nodes bipyramid
                 (build_tagged bipyramid [''middle''] [] [''rim'', ''rim again''] [''none''])) of
         Inl err \<Rightarrow> err = OutOfBounds
       | Inr st \<Rightarrow> False)"
  by code_simp

lemma set_insert_all: "set (insert_all xs s) = set s \<union> set xs"
  unfolding insert_all_def
  by (induction xs arbitrary: s) (auto simp: int_unordered_set_insert_def)

lemma distinct_insert_all: "distinct s \<Longrightarrow> distinct (insert_all xs s)"
  unfolding insert_all_def
  by (induction xs arbitrary: s) (auto simp: int_unordered_set_insert_def)

lemma length_insert_all: "length (insert_all xs []) = card (set xs)"
  using distinct_card [OF distinct_insert_all [of "[]" xs]] by (simp add: set_insert_all)

lemma insert_all_append: "insert_all (xs @ ys) s = insert_all ys (insert_all xs s)"
  by (simp add: insert_all_def)

lemma fold_field_preserved:
  assumes "\<And>x s. F (step x s) = F s"
  shows "F (fold step xs s) = F s"
  using assms by (induction xs arbitrary: s) auto

lemma for_tags_preserved:
  assumes "\<And>x s. F (step x s) = F s"
  shows "F (for_tags mesh_tag tags step s) = F s"
  unfolding for_tags_def
  by (induction tags arbitrary: s) (auto simp: fold_field_preserved [of F step, OF assms])

lemma fold_field_tracked:
  assumes "\<And>x s. F (step x s) = int_unordered_set_insert (F s) x"
  shows "F (fold step xs s) = insert_all xs (F s)"
  using assms by (induction xs arbitrary: s) (auto simp: insert_all_def)

lemma for_tags_tracked:
  assumes "\<And>x s. F (step x s) = int_unordered_set_insert (F s) x"
  shows "F (for_tags mesh_tag tags step s) = insert_all (tag_entries mesh_tag tags) (F s)"
  unfolding for_tags_def tag_entries_def
  by (induction tags arbitrary: s)
    (auto simp: fold_field_tracked [of F step, OF assms] insert_all_append insert_all_def)

lemma build_tagged_external_model_faces:
  "external_model_faces (build_tagged m ext_tags int_tags e_tags v_tags)
     = insert_all (tag_entries (face_tags m) ext_tags) []"
  by (simp add: build_tagged_def Let_def
      for_tags_preserved [of external_model_faces] for_tags_tracked [of external_model_faces]
      external_face_step_def internal_face_step_def model_edge_step_def model_vertex_step_def
      empty_tagged_def)

lemma build_tagged_internal_model_faces:
  "internal_model_faces (build_tagged m ext_tags int_tags e_tags v_tags)
     = insert_all (tag_entries (face_tags m) int_tags) []"
  by (simp add: build_tagged_def Let_def
      for_tags_preserved [of internal_model_faces] for_tags_tracked [of internal_model_faces]
      external_face_step_def internal_face_step_def model_edge_step_def model_vertex_step_def
      empty_tagged_def)

lemma build_tagged_model_edges:
  "model_edges (build_tagged m ext_tags int_tags e_tags v_tags)
     = insert_all (tag_entries (edge_tags m) e_tags) []"
  by (simp add: build_tagged_def Let_def
      for_tags_preserved [of model_edges] for_tags_tracked [of model_edges]
      external_face_step_def internal_face_step_def model_edge_step_def model_vertex_step_def
      empty_tagged_def)

lemma build_tagged_model_vertices:
  "model_vertices (build_tagged m ext_tags int_tags e_tags v_tags)
     = insert_all (tag_entries (node_tags m) v_tags) []"
  by (simp add: build_tagged_def Let_def
      for_tags_preserved [of model_vertices] for_tags_tracked [of model_vertices]
      external_face_step_def internal_face_step_def model_edge_step_def model_vertex_step_def
      empty_tagged_def)

lemma count_dual_nodes_card:
  "count_dual_nodes m (build_tagged m ext_tags int_tags e_tags v_tags)
     = num_cells m + card (set (tag_entries (face_tags m) ext_tags))
       + card (set (tag_entries (face_tags m) int_tags))
       + card (set (tag_entries (edge_tags m) e_tags))
       + card (set (tag_entries (node_tags m) v_tags))"
  by (simp add: count_dual_nodes_def build_tagged_external_model_faces
      build_tagged_internal_model_faces build_tagged_model_edges build_tagged_model_vertices
      length_insert_all)

text \<open>
  When no element is listed twice among the tags of one family, the count is the number
  of vertices generated: the dual nodes are the four contiguous blocks and the generation
  offset ends at the count.
\<close>

lemma dual_node_count_and_blocks:
  assumes "distinct (tag_entries (face_tags m) ext_tags)"
    and "distinct (tag_entries (face_tags m) int_tags)"
    and "distinct (tag_entries (edge_tags m) e_tags)"
    and "distinct (tag_entries (node_tags m) v_tags)"
  shows "count_dual_nodes m (build_tagged m ext_tags int_tags e_tags v_tags)
           = num_cells m + card (set (tag_entries (face_tags m) ext_tags))
             + card (set (tag_entries (face_tags m) int_tags))
             + card (set (tag_entries (edge_tags m) e_tags))
             + card (set (tag_entries (node_tags m) v_tags))
         \<and> (\<exists>st. generate_dual_vertices geom m ext_tags int_tags e_tags v_tags
                   (count_dual_nodes m (build_tagged m ext_tags int_tags e_tags v_tags)) = Inr st
               \<and> dv_offset st
                   = count_dual_nodes m (build_tagged m ext_tags int_tags e_tags v_tags)
               \<and> dual_mesh_nodes st
                   = map Some (dual_node_blocks geom m ext_tags int_tags e_tags v_tags))"
proof -
  let ?N = "count_dual_nodes m (build_tagged m ext_tags int_tags e_tags v_tags)"
  have "?N = length (dual_node_blocks geom m ext_tags int_tags e_tags v_tags)"
    using assms by (simp add: count_dual_nodes_card distinct_card dual_node_blocks_def)
  with generate_dual_vertices_result [of ?N geom m ext_tags int_tags e_tags v_tags]
  show ?thesis by (auto simp: count_dual_nodes_card)
qed

lemma dual_node_count_and_blocks_example:
  "count_dual_nodes bipyramid (build_tagged bipyramid [''outer''] [''middle''] [''rim''] [''apex''])
     = 2 + 6 + 1 + 3 + 1
   \<and> (\<exists>st. generate_dual_vertices example_geometry bipyramid [''outer''] [''middle''] [''rim'']
             [''apex'']
             (count_dual_nodes bipyramid
                (build_tagged bipyramid [''outer''] [''middle''] [''rim''] [''apex''])) = Inr st
         \<and> dv_offset st = 13
         \<and> dual_mesh_nodes st
             = map Some (replicate 2 (fpoint 1 1 1)
                 @ [fpoint 2 1 1, fpoint 1 2 1, fpoint 1 1 1,
                    fpoint 2 1 (- 1), fpoint 1 2 (- 1), fpoint 1 1 (- 1)]
                 @ [fpoint 2 2 0]
                 @ [fpoint 3 (3/2) 0, fpoint (3/2) 3 0, fpoint (3/2) (3/2) 0]
                 @ [fpoint 0 0 3]))"
proof -
  have d: "distinct (tag_entries (face_tags bipyramid) [''outer''])"
    "distinct (tag_entries (face_tags bipyramid) [''middle''])"
    "distinct (tag_entries (edge_tags bipyramid) [''rim''])"
    "distinct (tag_entries (node_tags bipyramid) [''apex''])"
    by (simp_all add: tag_entries_def bipyramid_def)
  have n: "count_dual_nodes bipyramid
             (build_tagged bipyramid [''outer''] [''middle''] [''rim''] [''apex'']) = 13"
    by code_simp
  have b: "dual_node_blocks example_geometry bipyramid [''outer''] [''middle''] [''rim''] [''apex'']
             = replicate 2 (fpoint 1 1 1)
                 @ [fpoint 2 1 1, fpoint 1 2 1, fpoint 1 1 1,
                    fpoint 2 1 (- 1), fpoint 1 2 (- 1), fpoint 1 1 (- 1)]
                 @ [fpoint 2 2 0]
                 @ [fpoint 3 (3/2) 0, fpoint (3/2) 3 0, fpoint (3/2) (3/2) 0]
                 @ [fpoint 0 0 3]"
    by code_simp
  from dual_node_count_and_blocks [OF d, of example_geometry] show ?thesis
    unfolding n b by simp
qed

text \<open>
  Claim C5 (the total dual-node count is the number of primal cells plus the numbers of
  tagged external faces, tagged internal faces, tagged edges and tagged vertices, the dual
  nodes are contiguous blocks in this order, and the generation offset ends at the total
  count). The count is as claimed: it takes the sizes of the sets of tagged elements. The
  generation makes one vertex per entry of a tag. As soon as an element is listed twice
  among the tags of one family, more vertices are generated than were counted: the first
  vertex in excess is written past the end of \<^verbatim>\<open>dual_mesh->nodes\<close>, and the generation
  does not return.
\<close>

theorem duplicate_tag_entries_overrun:
  assumes "\<not> (distinct (tag_entries (face_tags m) ext_tags)
              \<and> distinct (tag_entries (face_tags m) int_tags)
              \<and> distinct (tag_entries (edge_tags m) e_tags)
              \<and> distinct (tag_entries (node_tags m) v_tags))"
  shows "count_dual_nodes m (build_tagged m ext_tags int_tags e_tags v_tags)
           = num_cells m + card (set (tag_entries (face_tags m) ext_tags))
             + card (set (tag_entries (face_tags m) int_tags))
             + card (set (tag_entries (edge_tags m) e_tags))
             + card (set (tag_entries (node_tags m) v_tags))
         \<and> count_dual_nodes m (build_tagged m ext_tags int_tags e_tags v_tags)
             < length (dual_node_blocks geom m ext_tags int_tags e_tags v_tags)
         \<and> generate_dual_vertices geom m ext_tags int_tags e_tags v_tags
             (count_dual_nodes m (build_tagged m ext_tags int_tags e_tags v_tags))
             = Inl OutOfBounds"
proof -
  let ?N = "count_dual_nodes m (build_tagged m ext_tags int_tags e_tags v_tags)"
  have le: "card (set xs) \<le> length xs" for xs :: "int list" by (rule card_length)
  have lt: "card (set xs) < length xs" if "\<not> distinct xs" for xs :: "int list"
    using that card_length [of xs] card_distinct [of xs] by linarith
  have total: "length (dual_node_blocks geom m ext_tags int_tags e_tags v_tags)
                 = num_cells m + length (tag_entries (face_tags m) ext_tags)
                   + length (tag_entries (face_tags m) int_tags)
                   + length (tag_entries (edge_tags m) e_tags)
                   + length (tag_entries (node_tags m) v_tags)"
    by (simp add: dual_node_blocks_def)
  have less: "?N < length (dual_node_blocks geom m ext_tags int_tags e_tags v_tags)"
    unfolding total count_dual_nodes_card
    using assms le [of "tag_entries (face_tags m) ext_tags"]
      le [of "tag_entries (face_tags m) int_tags"] le [of "tag_entries (edge_tags m) e_tags"]
      le [of "tag_entries (node_tags m) v_tags"] lt [of "tag_entries (face_tags m) ext_tags"]
      lt [of "tag_entries (face_tags m) int_tags"] lt [of "tag_entries (edge_tags m) e_tags"]
      lt [of "tag_entries (node_tags m) v_tags"]
    by linarith
  with generate_dual_vertices_result [of ?N geom m ext_tags int_tags e_tags v_tags]
  show ?thesis by (simp add: count_dual_nodes_card)
qed

theorem duplicate_tag_entries_overrun_witness:
  "\<not> distinct (tag_entries (edge_tags bipyramid) [''rim'', ''rim again''])
   \<and> count_dual_nodes bipyramid
       (build_tagged bipyramid [''middle''] [] [''rim'', ''rim again''] [''none'']) = 2 + 1 + 0 + 3 + 0
   \<and> length (dual_node_blocks example_geometry bipyramid [''middle''] []
               [''rim'', ''rim again''] [''none'']) = 7
   \<and> generate_dual_vertices example_geometry bipyramid [''middle''] []
       [''rim'', ''rim again''] [''none'']
       (count_dual_nodes bipyramid
          (build_tagged bipyramid [''middle''] [] [''rim'', ''rim again''] [''none'']))
       = Inl OutOfBounds"
proof -
  have e: "tag_entries (edge_tags bipyramid) [''rim'', ''rim again''] = [0, 1, 2, 2]"
    "tag_entries (face_tags bipyramid) [''middle''] = [0]"
    "tag_entries (face_tags bipyramid) [] = []"
    "tag_entries (node_tags bipyramid) [''none''] = []"
    by (simp_all add: tag_entries_def bipyramid_def)
  have d: "\<not> (distinct (tag_entries (face_tags bipyramid) [''middle''])
              \<and> distinct (tag_entries (face_tags bipyramid) [])
              \<and> distinct (tag_entries (edge_tags bipyramid) [''rim'', ''rim again''])
              \<and> distinct (tag_entries (node_tags bipyramid) [''none'']))"
    unfolding e by simp
  have l: "length (dual_node_blocks example_geometry bipyramid [''middle''] []
               [''rim'', ''rim again''] [''none'']) = 7"
    by (simp add: dual_node_blocks_def e) (simp add: bipyramid_def)
  have c: "num_cells bipyramid = 2" by (simp add: bipyramid_def)
  from duplicate_tag_entries_overrun [OF d, of example_geometry] l show ?thesis
    unfolding e c by auto
qed

lemma efold_field_preserved:
  assumes "efold step xs st = Inr st'"
    and "\<And>x s s'. step x s = Inr s' \<Longrightarrow> F s' = F s"
  shows "F st' = F st"
  using assms(1)
proof (induction xs arbitrary: st)
  case Nil
  then show ?case by simp
next
  case (Cons x xs)
  then obtain s1 where "step x st = Inr s1" "efold step xs s1 = Inr st'"
    by (auto split: sum.splits)
  with Cons.IH [of s1] assms(2) [of x st s1] show ?case by simp
qed

lemma efor_tags_field_preserved:
  assumes "efor_tags mesh_tag tags step st = Inr st'"
    and "\<And>x s s'. step x s = Inr s' \<Longrightarrow> F s' = F s"
  shows "F st' = F st"
  using assms(1) unfolding efor_tags_def
  by (rule efold_field_preserved) (erule efold_field_preserved, erule assms(2))

lemma cell_vertex_step_edge_map:
  "cell_vertex_step geom tet c s = Inr s' \<Longrightarrow> dual_node_for_edge s' = dual_node_for_edge s"
  by (auto simp: cell_vertex_step_def put_dual_node_def ebind_eq_Inr Let_def split: if_splits)

lemma model_face_vertex_step_edge_map:
  "model_face_vertex_step m x s = Inr s' \<Longrightarrow> dual_node_for_edge s' = dual_node_for_edge s"
  by (auto simp: model_face_vertex_step_def put_dual_node_def ebind_eq_Inr Let_def
      split: if_splits)

lemma model_vertex_vertex_step_edge_map:
  "model_vertex_vertex_step m x s = Inr s' \<Longrightarrow> dual_node_for_edge s' = dual_node_for_edge s"
  by (auto simp: model_vertex_vertex_step_def put_dual_node_def ebind_eq_Inr Let_def
      split: if_splits)

lemma model_edge_vertex_step_edge_map:
  "model_edge_vertex_step geom m (p, edge) s = Inr s' \<Longrightarrow>
     dual_node_for_edge s' = (dual_node_for_edge s)(int p \<mapsto> int (dv_offset s))"
  by (auto simp: model_edge_vertex_step_def put_dual_node_def ebind_eq_Inr Let_def
      int_int_unordered_map_insert_def split: if_splits)

lemma model_edge_tag_keys:
  assumes "efold (model_edge_vertex_step geom m) (enumerate n t) s = Inr s'"
  shows "dom (dual_node_for_edge s') = dom (dual_node_for_edge s) \<union> int ` {n..<n + length t}"
  using assms
proof (induction t arbitrary: n s)
  case Nil
  then show ?case by simp
next
  case (Cons edge t)
  then obtain s1 where s1: "model_edge_vertex_step geom m (n, edge) s = Inr s1"
    "efold (model_edge_vertex_step geom m) (enumerate (Suc n) t) s1 = Inr s'"
    by (auto split: sum.splits)
  have "{n..<n + length (edge # t)} = insert n {Suc n..<Suc n + length t}" by auto
  with Cons.IH [OF s1(2)] model_edge_vertex_step_edge_map [OF s1(1)] show ?case by auto
qed

lemma model_edge_tags_keys:
  assumes "efor_tags mesh_tag tags (model_edge_vertex_step geom m) s = Inr s'"
  shows "dom (dual_node_for_edge s')
           = dom (dual_node_for_edge s) \<union> (\<Union>name \<in> set tags. int ` {0..<length (mesh_tag name)})"
  using assms unfolding efor_tags_def
proof (induction tags arbitrary: s)
  case Nil
  then show ?case by simp
next
  case (Cons name tags)
  then obtain s1 where s1: "efold (model_edge_vertex_step geom m) (enumerate 0 (mesh_tag name)) s = Inr s1"
    "efold (\<lambda>name. efold (model_edge_vertex_step geom m) (enumerate 0 (mesh_tag name))) tags s1 = Inr s'"
    by (auto split: sum.splits)
  from Cons.IH [OF s1(2)] model_edge_tag_keys [OF s1(1)] show ?case by auto
qed

text \<open>
  Claim C7 (the lookup map sends the primal edge index of a tagged model edge to the dual
  vertex generated for that edge). The source inserts under the position of the edge in
  its tag (\<^verbatim>\<open>e\<close>, not \<^verbatim>\<open>tag[e]\<close>): whenever the generation returns, the keys of the map
  are exactly the positions that occur in the edge tags, whichever edges the tags hold.
\<close>

theorem edge_map_keys_are_tag_positions:
  assumes "generate_dual_vertices geom m ext_tags int_tags e_tags v_tags N = Inr st"
  shows "dom (dual_node_for_edge st) = (\<Union>name \<in> set e_tags. int ` {0..<length (edge_tags m name)})"
proof -
  from assms obtain st1 st2 st3 st4 where
    s1: "efold (cell_vertex_step geom (tetrahedron_new geom)) [0..<num_cells m]
           \<lparr>dual_mesh_nodes = replicate N None, dv_offset = 0,
            dual_node_for_model_face = Map.empty, dual_node_for_edge = Map.empty\<rparr> = Inr st1"
    and s2: "efor_tags (face_tags m) ext_tags (model_face_vertex_step m) st1 = Inr st2"
    and s3: "efor_tags (face_tags m) int_tags (model_face_vertex_step m) st2 = Inr st3"
    and s4: "efor_tags (edge_tags m) e_tags (model_edge_vertex_step geom m) st3 = Inr st4"
    and s5: "efor_tags (node_tags m) v_tags (model_vertex_vertex_step m) st4 = Inr st"
    by (auto simp: generate_dual_vertices_def Let_def ebind_eq_Inr split: if_splits)
  have "dual_node_for_edge st1 = Map.empty"
    using efold_field_preserved [OF s1, of dual_node_for_edge] cell_vertex_step_edge_map
    by fastforce
  moreover have "dual_node_for_edge st2 = dual_node_for_edge st1"
    using efor_tags_field_preserved [OF s2, of dual_node_for_edge]
      model_face_vertex_step_edge_map by blast
  moreover have "dual_node_for_edge st3 = dual_node_for_edge st2"
    using efor_tags_field_preserved [OF s3, of dual_node_for_edge]
      model_face_vertex_step_edge_map by blast
  moreover have "dual_node_for_edge st = dual_node_for_edge st4"
    using efor_tags_field_preserved [OF s5, of dual_node_for_edge]
      model_vertex_vertex_step_edge_map by blast
  ultimately show ?thesis using model_edge_tags_keys [OF s4] by simp
qed

lemma bipyramid_spoke_blocks:
  "length (dual_node_blocks example_geometry bipyramid [''middle''] [] [''spoke''] [''none'']) = 4"
  by (simp add: dual_node_blocks_def tag_entries_def bipyramid_def)

theorem edge_map_keys_are_tag_positions_witness:
  "\<exists>st. generate_dual_vertices example_geometry bipyramid [''middle''] [] [''spoke''] [''none''] 4 = Inr st
      \<and> dom (dual_node_for_edge st) = {0} \<and> edge_tags bipyramid ''spoke'' = [5]"
proof -
  from generate_dual_vertices_result [of 4 example_geometry bipyramid "[''middle'']" "[]"
      "[''spoke'']" "[''none'']"] bipyramid_spoke_blocks
  obtain st where st: "generate_dual_vertices example_geometry bipyramid [''middle''] []
      [''spoke''] [''none''] 4 = Inr st" by auto
  have t: "edge_tags bipyramid ''spoke'' = [5]" by (simp add: bipyramid_def)
  from edge_map_keys_are_tag_positions [OF st] st t show ?thesis by auto
qed

subsection \<open>Dual faces for the primal edges\<close>

lemma external_edge_face_offset:
  "external_edge_face geom m tg mp cells edge st = Inr st' \<Longrightarrow> df_offset st' = df_offset st + 1"
  by (auto simp: external_edge_face_def Let_def ebind_eq_Inr split: if_splits option.splits)

lemma internal_edge_faces_offset:
  "internal_edge_faces geom m tg mp cells edge st = Inr st' \<Longrightarrow> df_offset st' = df_offset st + 2"
  by (auto simp: internal_edge_faces_def Let_def ebind_eq_Inr
      split: if_splits option.splits prod.splits)

lemma interior_edge_face_offset:
  "interior_edge_face geom m cells st = Inr st' \<Longrightarrow> df_offset st' = df_offset st + 1"
  by (auto simp: interior_edge_face_def Let_def ebind_eq_Inr split: if_splits)

lemma edge_face_step_offset:
  assumes "edge_face_step geom m tg inc mp e st = Inr st'"
  shows "df_offset st' = df_offset st
           + (if \<not> int_unordered_set_contains (external_model_face_edges tg) (int e)
                 \<and> int_unordered_set_contains (internal_model_face_edges tg) (int e)
              then 2 else 1)"
  using assms
  by (auto simp: edge_face_step_def Let_def ebind_eq_Inr
      split: if_splits option.splits
      dest: external_edge_face_offset internal_edge_faces_offset interior_edge_face_offset)

lemma edge_face_loop_offset:
  assumes "efold (edge_face_step geom m tg inc mp) es st = Inr st'"
  shows "df_offset st' = df_offset st + length es
           + length (filter (\<lambda>e. \<not> int_unordered_set_contains (external_model_face_edges tg) (int e)
                 \<and> int_unordered_set_contains (internal_model_face_edges tg) (int e)) es)"
  using assms
proof (induction es arbitrary: st)
  case Nil
  then show ?case by simp
next
  case (Cons e es)
  then obtain st1 where st1: "edge_face_step geom m tg inc mp e st = Inr st1"
    "efold (edge_face_step geom m tg inc mp) es st1 = Inr st'"
    by (auto split: sum.splits)
  from Cons.IH [OF st1(2)] edge_face_step_offset [OF st1(1)] show ?case by simp
qed

text \<open>
  Claim C4 (the number of dual faces allocated is the number of primal edges plus the
  number of edges of tagged external faces plus the faces counted for tagged nodes, and
  the loop over the primal edges ends with the face counter at the edge-derived part of
  that number). The allocation is as claimed. The loop adds one face for an edge of a
  tagged external face or an untagged edge and two for an edge that lies on a tagged
  internal face only, so whenever it returns the counter is the number of primal edges
  plus the number of such internal-only edges, which is not what was allocated.
\<close>

theorem edge_loop_face_counter:
  assumes "edge_faces_loop geom m tg inc mp n = Inr st"
  shows "df_offset st
           = num_edges m
             + length (filter (\<lambda>e. \<not> int_unordered_set_contains (external_model_face_edges tg) (int e)
                 \<and> int_unordered_set_contains (internal_model_face_edges tg) (int e))
                 [0..<num_edges m])
         \<and> count_dual_faces m tg from_vertices
           = num_edges m + length (external_model_face_edges tg) + from_vertices"
  using edge_face_loop_offset [OF assms [unfolded edge_faces_loop_def]]
  by (simp add: count_dual_faces_def)

text \<open>
  On the two-tetrahedron mesh with the shared face tagged as external and its three edges
  tagged as model edges the loop returns with nine faces; 18 were allocated, 12 of them
  for the edges, and \<^verbatim>\<open>ASSERT(df_offset == num_dual_faces)\<close> fails.
\<close>

lemma bipyramid_edge_loop:
  "(case build_incidence bipyramid (build_tagged bipyramid [''middle''] [] [''rim''] [''none'']) of
      Inl err \<Rightarrow> False
    | Inr inc \<Rightarrow>
       (case count_dual_faces_from_boundary_vertices bipyramid
               (build_tagged bipyramid [''middle''] [] [''rim''] [''none'']) inc of
          Inl err \<Rightarrow> False
        | Inr from_vertices \<Rightarrow>
           (case generate_dual_vertices example_geometry bipyramid [''middle''] [] [''rim''] [''none'']
                   (count_dual_nodes bipyramid (build_tagged bipyramid [''middle''] [] [''rim''] [''none''])) of
              Inl err \<Rightarrow> False
            | Inr dv \<Rightarrow>
               (case edge_faces_loop example_geometry bipyramid
                       (build_tagged bipyramid [''middle''] [] [''rim''] [''none'']) inc
                       (dual_node_for_edge dv)
                       (count_dual_faces bipyramid
                          (build_tagged bipyramid [''middle''] [] [''rim''] [''none'']) from_vertices) of
                  Inl err \<Rightarrow> False
                | Inr st \<Rightarrow>
                    df_offset st = 9 \<and> from_vertices = 6
                    \<and> count_dual_faces bipyramid
                          (build_tagged bipyramid [''middle''] [] [''rim''] [''none'']) from_vertices = 18
                    \<and> count_dual_faces bipyramid
                          (build_tagged bipyramid [''middle''] [] [''rim''] [''none'']) 0 = 12
                    \<and> nodes_for_dual_face st
                        = [Some [Some 0, Some 1, Some 3], Some [Some 0, Some 1, Some 4],
                           Some [Some 0, Some 1, Some 5], Some [Some 0], Some [Some 0],
                           Some [Some 0], Some [Some 0], Some [Some 0], Some [Some 0]]
                          @ replicate 9 None))))"
  by code_simp

theorem edge_loop_face_counter_witness:
  "\<exists>inc dv st.
      build_incidence bipyramid (build_tagged bipyramid [''middle''] [] [''rim''] [''none'']) = Inr inc
    \<and> generate_dual_vertices example_geometry bipyramid [''middle''] [] [''rim''] [''none''] 6 = Inr dv
    \<and> edge_faces_loop example_geometry bipyramid
         (build_tagged bipyramid [''middle''] [] [''rim''] [''none'']) inc (dual_node_for_edge dv) 18
       = Inr st
    \<and> df_offset st = 9
    \<and> count_dual_faces bipyramid (build_tagged bipyramid [''middle''] [] [''rim''] [''none'']) 6 = 18"
proof -
  have n: "count_dual_nodes bipyramid (build_tagged bipyramid [''middle''] [] [''rim''] [''none'']) = 6"
    by code_simp
  have f: "length (filter (\<lambda>e. \<not> int_unordered_set_contains
              (external_model_face_edges (build_tagged bipyramid [''middle''] [] [''rim''] [''none''])) (int e)
            \<and> int_unordered_set_contains
              (internal_model_face_edges (build_tagged bipyramid [''middle''] [] [''rim''] [''none''])) (int e))
            [0..<num_edges bipyramid]) = 0"
    by code_simp
  have e: "num_edges bipyramid = 9"
    "length (external_model_face_edges (build_tagged bipyramid [''middle''] [] [''rim''] [''none''])) = 3"
    by code_simp+
  from bipyramid_edge_loop obtain inc dv st where run:
    "build_incidence bipyramid (build_tagged bipyramid [''middle''] [] [''rim''] [''none'']) = Inr inc"
    "generate_dual_vertices example_geometry bipyramid [''middle''] [] [''rim''] [''none''] 6 = Inr dv"
    "edge_faces_loop example_geometry bipyramid
         (build_tagged bipyramid [''middle''] [] [''rim''] [''none'']) inc (dual_node_for_edge dv) 18
       = Inr st"
    unfolding n by (auto split: sum.splits)
  from edge_loop_face_counter [OF run(3), of 6, unfolded f] run show ?thesis
    unfolding e by auto
qed

lemma wr_length: "wr xs i v = Inr ys \<Longrightarrow> length ys = length xs \<and> 0 \<le> i \<and> i < int (length xs)"
  by (auto simp: wr_def split: if_splits)

lemma put_back_loop_length:
  "efold (put_back tw) is d = Inr d' \<Longrightarrow> length d' = length d"
proof (induction "is" arbitrary: d)
  case Nil
  then show ?case by simp
next
  case (Cons i "is")
  then obtain d1 where d1: "put_back tw i d = Inr d1" "efold (put_back tw) is d1 = Inr d'"
    by (auto split: sum.splits)
  from d1(1) have "length d1 = length d"
    by (auto simp: put_back_def ebind_eq_Inr dest: wr_length)
  with Cons.IH [OF d1(2)] show ?case by simp
qed

lemma order_nodes_length:
  assumes "order_nodes_of_dual_face project at2 ep dual_nodes n d junk = Inr r"
  shows "length r = length d"
  using assms
  by (auto simp: order_nodes_of_dual_face_def middle_node_def Let_def ebind_eq_Inr
      split: if_splits option.splits dest!: wr_length put_back_loop_length)

lemma last_update_snoc: "length xs = k \<Longrightarrow> last ((map f xs @ [y])[k := v]) = v"
  by (simp add: list_update_append)

text \<open>
  In the external-boundary branch the node appended for a model edge is the one the
  lookup map holds under the primal edge index.
\<close>

lemma external_edge_face_last_node:
  assumes "external_edge_face geom m tg mp cells edge st = Inr st'"
    and "int_unordered_set_contains (model_edges tg) edge"
  shows "\<exists>v face_nodes. mp edge = Some v
           \<and> nodes_for_dual_face st' ! df_offset st = Some face_nodes
           \<and> face_nodes \<noteq> [] \<and> last face_nodes = Some v"
  using assms
  by (auto simp: external_edge_face_def Let_def ebind_eq_Inr wr_def
      last_update_snoc split: if_splits option.splits dest!: order_nodes_length)

text \<open>
  Claim C6 (the last node of a dual face made for a tagged model edge is the dual vertex
  generated for that edge). The node appended is the one the lookup map gives for the
  primal edge index, and the map is keyed by tag position: with the edge tag \<open>[1, 0]\<close> the
  face of edge 0, an edge of a tagged external face, ends with dual node 3, the midpoint
  of edge 1, while the vertex generated for edge 0 is dual node 4.
\<close>

theorem external_face_gets_other_edges_vertex:
  "(case build_incidence bipyramid (build_tagged bipyramid [''middle''] [] [''swapped''] [''none'']) of
      Inl err \<Rightarrow> False
    | Inr inc \<Rightarrow>
       (case count_dual_faces_from_boundary_vertices bipyramid
               (build_tagged bipyramid [''middle''] [] [''swapped''] [''none'']) inc of
          Inl err \<Rightarrow> False
        | Inr from_vertices \<Rightarrow>
       (case generate_dual_vertices example_geometry bipyramid [''middle''] [] [''swapped''] [''none'']
               (count_dual_nodes bipyramid
                  (build_tagged bipyramid [''middle''] [] [''swapped''] [''none''])) of
          Inl err \<Rightarrow> False
        | Inr dv \<Rightarrow>
           (case edge_face_step example_geometry bipyramid
                   (build_tagged bipyramid [''middle''] [] [''swapped''] [''none'']) inc
                   (dual_node_for_edge dv) 0
                   \<lparr>df_offset = 0,
                    face_node_offsets = replicate
                      (count_dual_faces bipyramid
                         (build_tagged bipyramid [''middle''] [] [''swapped''] [''none'']) from_vertices + 1) 0,
                    nodes_for_dual_face = replicate
                      (count_dual_faces bipyramid
                         (build_tagged bipyramid [''middle''] [] [''swapped''] [''none'']) from_vertices)
                      None\<rparr> of
              Inl err \<Rightarrow> False
            | Inr st \<Rightarrow>
                int_unordered_set_contains
                  (model_edges (build_tagged bipyramid [''middle''] [] [''swapped''] [''none''])) 0
                \<and> int_unordered_set_contains
                  (external_model_face_edges
                     (build_tagged bipyramid [''middle''] [] [''swapped''] [''none''])) 0
                \<and> nodes_for_dual_face st ! 0 = Some [Some 0, Some 1, Some 3]
                \<and> dual_mesh_nodes dv ! 3 = Some (model_edge_midpoint example_geometry bipyramid 1)
                \<and> dual_mesh_nodes dv ! 4 = Some (model_edge_midpoint example_geometry bipyramid 0)))))"
  by code_simp

lemma copy_ring_nodes_length:
  "copy_ring_nodes dni ord start is fn = Inr fn' \<Longrightarrow> length fn' = length fn"
  unfolding copy_ring_nodes_def
proof (induction "is" arbitrary: fn)
  case Nil
  then show ?case by simp
next
  case (Cons i "is")
  then obtain f1 where f1: "copy_ring_node dni ord start i fn = Inr f1"
    "efold (copy_ring_node dni ord start) is f1 = Inr fn'"
    by (auto split: sum.splits)
  from f1(1) have "length f1 = length fn"
    by (auto simp: copy_ring_node_def Let_def ebind_eq_Inr dest: wr_length)
  with Cons.IH [OF f1(2)] show ?case by simp
qed

lemma wr_at_length: "length xs = nat k \<Longrightarrow> wr xs k v = Inl OutOfBounds"
  by (auto simp: wr_def)

lemma append_model_edge_node_Inr:
  assumes "append_model_edge_node is_model_edge mp edge n1 n2 f1 f2 = Inr faces"
    and "length f1 = nat n1"
  shows "\<not> is_model_edge \<and> faces = (f1, f2)"
  using assms
  by (auto simp: append_model_edge_node_def wr_at_length split: if_splits option.splits)

lemma interface_faces_chain:
  assumes "append_model_edge_node me mp edge n1 n2 f1' f2 = Inr faces"
    and "copy_ring_nodes d ord s2 is2 f1 = Inr f1'"
    and "copy_ring_nodes d ord s1 is1 (replicate (nat n1) None) = Inr f1"
  shows "\<not> me \<and> faces = (f1', f2)"
proof -
  have "length f1' = nat n1"
    using copy_ring_nodes_length [OF assms(2)] copy_ring_nodes_length [OF assms(3)] by simp
  from append_model_edge_node_Inr [OF assms(1) this] show ?thesis .
qed

lemma wr_Suc_length:
  "wr xs (int n + 1) v = Inr ys \<Longrightarrow> Suc n < length ys"
  by (auto simp: wr_def split: if_splits)

text \<open>
  Claim C2 (an internal-interface edge yields two dual faces whose node lists are the two
  arcs of the ring between the two transitions). Both copy loops of the source write to
  \<^verbatim>\<open>face1_nodes\<close>: whenever the branch returns, the second face consists of three or more
  entries that were never written, and the edge is not a model edge (for a model edge the
  branch cannot return, its last two writes fall outside the arrays).
\<close>

theorem interface_second_face_never_written:
  assumes "internal_edge_faces geom m tg mp cells edge st = Inr st'"
  shows "\<not> int_unordered_set_contains (model_edges tg) edge
       \<and> (\<exists>k. 3 \<le> k \<and> nodes_for_dual_face st' ! (df_offset st + 1) = Some (replicate k None))"
  using assms
  by (auto simp add: internal_edge_faces_def Let_def ebind_eq_Inr simp del: wr_nat rd_nat
      split: if_splits prod.splits dest!: interface_faces_chain dest: wr_Suc_length)

text \<open>
  The branch evaluated from the mesh and its tags, for the edge with six cells around it.
  The transitions lie between cells 3 and 0 and between cells 4 and 1, the arcs are
  \<open>[0, 2, 4]\<close> and \<open>[1, 5, 3]\<close>; the faces stored are \<open>[0, 2, 4, 1, 1]\<close> and three
  unwritten entries.
\<close>

lemma ring_interface_edge:
  "(case build_incidence ring_mesh (build_tagged ring_mesh [''none''] [''interface''] [''none''] [''none'']) of
      Inl err \<Rightarrow> False
    | Inr inc \<Rightarrow>
       (case count_dual_faces_from_boundary_vertices ring_mesh
               (build_tagged ring_mesh [''none''] [''interface''] [''none''] [''none'']) inc of
          Inl err \<Rightarrow> False
        | Inr from_vertices \<Rightarrow>
       (case generate_dual_vertices ring_geometry ring_mesh [''none''] [''interface''] [''none''] [''none'']
               (count_dual_nodes ring_mesh (build_tagged ring_mesh [''none''] [''interface''] [''none''] [''none''])) of
          Inl err \<Rightarrow> False
        | Inr dv \<Rightarrow>
           (case edge_face_step ring_geometry ring_mesh
                   (build_tagged ring_mesh [''none''] [''interface''] [''none''] [''none'']) inc
                   (dual_node_for_edge dv) 0
                   \<lparr>df_offset = 0,
                    face_node_offsets = replicate
                      (count_dual_faces ring_mesh
                         (build_tagged ring_mesh [''none''] [''interface''] [''none''] [''none'']) from_vertices + 1) 0,
                    nodes_for_dual_face = replicate
                      (count_dual_faces ring_mesh
                         (build_tagged ring_mesh [''none''] [''interface''] [''none''] [''none'']) from_vertices) None\<rparr> of
              Inl err \<Rightarrow> False
            | Inr st \<Rightarrow>
                int_unordered_set_contains
                  (internal_model_face_edges (build_tagged ring_mesh [''none''] [''interface''] [''none''] [''none''])) 0
                \<and> \<not> int_unordered_set_contains
                  (external_model_face_edges (build_tagged ring_mesh [''none''] [''interface''] [''none''] [''none''])) 0
                \<and> primal_cells_for_edge inc ! 0 = Some [0, 1, 2, 3, 4, 5]
                \<and> df_offset st = 2
                \<and> nodes_for_dual_face st ! 0 = Some [Some 0, Some 2, Some 4, Some 1, Some 1]
                \<and> nodes_for_dual_face st ! 1 = Some [None, None, None]))))"
  by code_simp

theorem interface_second_face_never_written_witness:
  "\<exists>st'. internal_edge_faces ring_geometry ring_mesh
            (build_tagged ring_mesh [''none''] [''interface''] [''none''] [''none'']) Map.empty [0, 1, 2, 3, 4, 5] 0
            \<lparr>df_offset = 0, face_node_offsets = replicate 26 0,
             nodes_for_dual_face = replicate 25 None\<rparr> = Inr st'
        \<and> nodes_for_dual_face st' ! 0 = Some [Some 0, Some 2, Some 4, Some 1, Some 1]
        \<and> nodes_for_dual_face st' ! 1 = Some [None, None, None]
        \<and> \<not> int_unordered_set_contains
              (model_edges (build_tagged ring_mesh [''none''] [''interface''] [''none''] [''none''])) 0
        \<and> (\<exists>k. 3 \<le> k \<and> nodes_for_dual_face st' ! (0 + 1) = Some (replicate k None))"
proof -
  have "case internal_edge_faces ring_geometry ring_mesh
            (build_tagged ring_mesh [''none''] [''interface''] [''none''] [''none'']) Map.empty [0, 1, 2, 3, 4, 5] 0
            \<lparr>df_offset = 0, face_node_offsets = replicate 26 0,
             nodes_for_dual_face = replicate 25 None\<rparr> of
          Inl err \<Rightarrow> False
        | Inr st' \<Rightarrow> nodes_for_dual_face st' ! 0 = Some [Some 0, Some 2, Some 4, Some 1, Some 1]
                    \<and> nodes_for_dual_face st' ! 1 = Some [None, None, None]"
    by code_simp
  then obtain st' where run: "internal_edge_faces ring_geometry ring_mesh
            (build_tagged ring_mesh [''none''] [''interface''] [''none''] [''none'']) Map.empty [0, 1, 2, 3, 4, 5] 0
            \<lparr>df_offset = 0, face_node_offsets = replicate 26 0,
             nodes_for_dual_face = replicate 25 None\<rparr> = Inr st'"
    and faces: "nodes_for_dual_face st' ! 0 = Some [Some 0, Some 2, Some 4, Some 1, Some 1]"
      "nodes_for_dual_face st' ! 1 = Some [None, None, None]"
    by (auto split: sum.splits)
  from interface_second_face_never_written [OF run] run faces show ?thesis
    by (intro exI [of _ st']) simp
qed

subsection \<open>Dual cells\<close>

text \<open>
  Claim C10 (with at least one primal node no face list is ever assigned to a dual cell:
  every entry of \<open>faces_for_dual_cell\<close> stays null and the counter stays 0, which violates
  the assertion that follows; the compaction loop would dereference a null face list at
  every dual cell; the construction cannot complete).
\<close>

theorem dual_cells_never_assembled:
  assumes "c < num_nodes tet_mesh"
  shows "create_dual_cells (num_nodes tet_mesh) = (0, replicate (num_nodes tet_mesh) None)
       \<and> snd (create_dual_cells (num_nodes tet_mesh)) ! c = None
       \<and> fst (create_dual_cells (num_nodes tet_mesh)) \<noteq> num_nodes tet_mesh
       \<and> compact_cell (snd (create_dual_cells (num_nodes tet_mesh))) c fc = Inl NullPointer
       \<and> compact_cells (snd (create_dual_cells (num_nodes tet_mesh))) (num_nodes tet_mesh) fc
           = Inl NullPointer
       \<and> (\<exists>err. create_dual_mesh_from_tet_mesh geom tet_mesh ext_tags int_tags e_tags v_tags
                  = Inl err)
       \<and> (\<exists>err. create_dual_mesh geom tet_mesh ext_tags int_tags e_tags v_tags = Inl err)"
proof -
  let ?n = "num_nodes tet_mesh"
  have pos: "0 < ?n" using assms by simp
  have cell: "compact_cell (replicate ?n None) k fc' = Inl NullPointer" if "k < ?n" for k fc'
    using that by (simp add: compact_cell_def)
  have "[0..<?n] = 0 # [1..<?n]" using pos by (simp add: upt_conv_Cons)
  then have all: "compact_cells (replicate ?n None) ?n fc = Inl NullPointer"
    using cell [OF pos] by (simp add: compact_cells_def)
  have "create_dual_mesh_from_tet_mesh geom tet_mesh ext_tags int_tags e_tags v_tags \<noteq> Inr r"
    for r
    using pos
    by (auto simp: create_dual_mesh_from_tet_mesh_def Let_def ebind_eq_Inr create_dual_cells_def)
  then have inner: "\<exists>err. create_dual_mesh_from_tet_mesh geom tet_mesh ext_tags int_tags e_tags
                       v_tags = Inl err"
    by (cases "create_dual_mesh_from_tet_mesh geom tet_mesh ext_tags int_tags e_tags v_tags")
      auto
  then have outer: "\<exists>err. create_dual_mesh geom tet_mesh ext_tags int_tags e_tags v_tags
                       = Inl err"
    by (auto simp: create_dual_mesh_def)
  from assms cell [OF assms] all inner outer show ?thesis
    by (simp add: create_dual_cells_def)
qed

theorem dual_cells_never_assembled_witness:
  "create_dual_cells (num_nodes bipyramid) = (0, replicate (num_nodes bipyramid) None)
       \<and> snd (create_dual_cells (num_nodes bipyramid)) ! 0 = None
       \<and> fst (create_dual_cells (num_nodes bipyramid)) \<noteq> num_nodes bipyramid
       \<and> compact_cell (snd (create_dual_cells (num_nodes bipyramid))) 0 [] = Inl NullPointer
       \<and> compact_cells (snd (create_dual_cells (num_nodes bipyramid))) (num_nodes bipyramid) []
           = Inl NullPointer
       \<and> (\<exists>err. create_dual_mesh_from_tet_mesh example_geometry bipyramid [''outer''] []
                   [''rim''] [''apex''] = Inl err)
       \<and> (\<exists>err. create_dual_mesh example_geometry bipyramid [''outer''] []
                   [''rim''] [''apex''] = Inl err)"
proof -
  have "0 < num_nodes bipyramid" by (simp add: bipyramid_def)
  from dual_cells_never_assembled [OF this] show ?thesis .
qed

end
